theory Spec2Isabelle
  imports Complex_Main
begin

section \<open>JavaScript built-ins used by the wallet service\<close>

text \<open>
  The services of \<^verbatim>\<open>frontend/src/services\<close> are sequences of awaited calls to a wallet
  connector and a backend. This first part models the pieces of the language the
  services rely on: thrown values, \<^verbatim>\<open>BigInt(string)\<close>, \<^verbatim>\<open>BigInt.prototype.toString\<close>,
  \<^verbatim>\<open>Number(string)\<close> on decimal numerals, IEEE-754 double division and
  \<^verbatim>\<open>Number.prototype.toFixed\<close>. A string is a sequence of code units below 256 (the
  Latin-1 range); the words a contract call returns are ASCII.
\<close>

subsection \<open>Thrown values\<close>

datatype js_error = Error string | TypeError | SyntaxError | RangeError

type_synonym 'a outcome = "js_error + 'a"

subsection \<open>Decimal, hexadecimal, octal and binary numerals\<close>

text \<open>
  White space and line terminators of the language, as far as they are code units below
  256: tab, line feed, vertical tab, form feed, carriage return, space and the
  no-break space.
\<close>

definition is_ws :: "char \<Rightarrow> bool" where
  "is_ws c = (c \<in> set [CHR 0x09, CHR 0x0A, CHR 0x0B, CHR 0x0C, CHR 0x0D, CHR 0x20, CHR 0xA0])"

definition trim :: "string \<Rightarrow> string" where
  "trim s = rev (dropWhile is_ws (rev (dropWhile is_ws s)))"

definition digit_of :: "char \<Rightarrow> nat option" where
  "digit_of c =
     (let n = (of_char c :: nat) in
      if 48 \<le> n \<and> n \<le> 57 then Some (n - 48)
      else if 97 \<le> n \<and> n \<le> 102 then Some (n - 87)
      else if 65 \<le> n \<and> n \<le> 70 then Some (n - 55)
      else None)"

fun digits_value :: "nat \<Rightarrow> nat \<Rightarrow> string \<Rightarrow> nat option" where
  "digits_value b acc [] = Some acc"
| "digits_value b acc (c # cs) =
     (case digit_of c of
        None \<Rightarrow> None
      | Some d \<Rightarrow> if d < b then digits_value b (acc * b + d) cs else None)"

definition parse_digits :: "nat \<Rightarrow> string \<Rightarrow> nat option" where
  "parse_digits b s = (if s = [] then None else digits_value b 0 s)"

text \<open>
  \<^verbatim>\<open>StringToBigInt\<close>: surrounding white space is dropped, the empty string is \<open>0n\<close>, a
  sign is accepted on a decimal numeral only, and the prefixes \<^verbatim>\<open>0x\<close>, \<^verbatim>\<open>0o\<close>, \<^verbatim>\<open>0b\<close>
  (either case) select the radix. Anything else is not a numeral.
\<close>

definition StringToBigInt :: "string \<Rightarrow> int option" where
  "StringToBigInt str =
     (case trim str of
        [] \<Rightarrow> Some 0
      | [c] \<Rightarrow> map_option int (parse_digits 10 [c])
      | c # d # ds \<Rightarrow>
          if c = CHR ''0'' \<and> (d = CHR ''x'' \<or> d = CHR ''X'') then map_option int (parse_digits 16 ds)
          else if c = CHR ''0'' \<and> (d = CHR ''o'' \<or> d = CHR ''O'') then map_option int (parse_digits 8 ds)
          else if c = CHR ''0'' \<and> (d = CHR ''b'' \<or> d = CHR ''B'') then map_option int (parse_digits 2 ds)
          else if c = CHR ''-'' then map_option (\<lambda>n. - int n) (parse_digits 10 (d # ds))
          else if c = CHR ''+'' then map_option int (parse_digits 10 (d # ds))
          else map_option int (parse_digits 10 (c # d # ds)))"

text \<open>
  \<^verbatim>\<open>response[0]\<close> is \<^verbatim>\<open>undefined\<close> on an empty array; \<^verbatim>\<open>BigInt(undefined)\<close> throws a
  TypeError and \<^verbatim>\<open>BigInt\<close> of a string that is no numeral throws a SyntaxError.
\<close>

definition index0 :: "'a list \<Rightarrow> 'a option" where
  "index0 xs = (case xs of [] \<Rightarrow> None | x # _ \<Rightarrow> Some x)"

definition BigInt :: "string option \<Rightarrow> int outcome" where
  "BigInt v =
     (case v of
        None \<Rightarrow> Inl TypeError
      | Some s \<Rightarrow> (case StringToBigInt s of None \<Rightarrow> Inl SyntaxError | Some b \<Rightarrow> Inr b))"

definition digit_char :: "nat \<Rightarrow> char" where
  "digit_char d = char_of (48 + d)"

fun dec_nat :: "nat \<Rightarrow> string" where
  "dec_nat n = (if n < 10 then [digit_char n] else dec_nat (n div 10) @ [digit_char (n mod 10)])"

declare dec_nat.simps [simp del]

definition BigInt_toString :: "int \<Rightarrow> string" where
  "BigInt_toString b = (if b < 0 then CHR ''-'' # dec_nat (nat (- b)) else dec_nat (nat b))"

subsection \<open>Doubles\<close>

text \<open>
  A double is its exact rational value, or an infinity, or NaN. The sign of zero is not
  represented: no computation of the service produces a negative zero. Rounding is
  round-to-nearest, ties to even, on 53 significant bits, with the subnormal range below
  \<open>2 ^ -1022\<close> and overflow to infinity from \<open>2 ^ 1024\<close>.
\<close>

datatype double = Finite rat | PosInf | NegInf | NaN

definition pow2 :: "int \<Rightarrow> rat" where
  "pow2 k = (if 0 \<le> k then 2 ^ nat k else 1 / 2 ^ nat (- k))"

fun ilog2 :: "nat \<Rightarrow> nat" where
  "ilog2 n = (if n < 2 then 0 else ilog2 (n div 2) + 1)"

declare ilog2.simps [simp del]

text \<open>
  The exponent of a positive rational: the \<open>e\<close> with \<open>2 ^ e \<le> q < 2 ^ (e + 1)\<close>, read off
  the bit length of the integer part of \<open>q\<close>, or of \<open>1 / q\<close> when \<open>q\<close> is below one.
\<close>

definition floor_log2 :: "rat \<Rightarrow> int" where
  "floor_log2 q =
     (if 1 \<le> q then int (ilog2 (nat \<lfloor>q\<rfloor>))
      else (let l = int (ilog2 (nat \<lfloor>1 / q\<rfloor>))
            in if pow2 (- l) \<le> q then - l else - l - 1))"

definition round_half_even :: "rat \<Rightarrow> int" where
  "round_half_even m =
     (let n = \<lfloor>m\<rfloor>; f = m - of_int n
      in if f < 1 / 2 then n
         else if 1 / 2 < f then n + 1
         else if even n then n else n + 1)"

definition round_pos :: "rat \<Rightarrow> double" where
  "round_pos q =
     (let e = max (floor_log2 q) (- 1022);
          ulp = pow2 (e - 52);
          r = of_int (round_half_even (q / ulp)) * ulp
      in if pow2 1024 \<le> r then PosInf else Finite r)"

definition dneg :: "double \<Rightarrow> double" where
  "dneg x = (case x of Finite r \<Rightarrow> Finite (- r) | PosInf \<Rightarrow> NegInf | NegInf \<Rightarrow> PosInf | NaN \<Rightarrow> NaN)"

definition to_double :: "rat \<Rightarrow> double" where
  "to_double q = (if q = 0 then Finite 0 else if 0 < q then round_pos q else dneg (round_pos (- q)))"

text \<open>
  \<^verbatim>\<open>Number(string)\<close> on the numerals that \<^verbatim>\<open>BigInt.prototype.toString\<close> produces: an
  optional sign and decimal digits, converted to the nearest double. The other literal
  forms of the language (fractions, exponents, radix prefixes, \<^verbatim>\<open>Infinity\<close>) never reach
  this call in the service and are not modelled: they are mapped to NaN here. The
  conversion is the correctly rounded one, as engines implement it.
\<close>

definition Number :: "string \<Rightarrow> double" where
  "Number str =
     (case trim str of
        [] \<Rightarrow> Finite 0
      | c # cs \<Rightarrow>
          if c = CHR ''-'' then
            (case parse_digits 10 cs of None \<Rightarrow> NaN | Some n \<Rightarrow> dneg (to_double (of_nat n)))
          else if c = CHR ''+'' then
            (case parse_digits 10 cs of None \<Rightarrow> NaN | Some n \<Rightarrow> to_double (of_nat n))
          else
            (case parse_digits 10 (c # cs) of None \<Rightarrow> NaN | Some n \<Rightarrow> to_double (of_nat n)))"

text \<open>\<^verbatim>\<open>10 ** d\<close> is exact for the two exponents the service uses (6 and 18).\<close>

definition pow10 :: "nat \<Rightarrow> double" where
  "pow10 d = Finite (10 ^ d)"

fun ddiv :: "double \<Rightarrow> double \<Rightarrow> double" where
  "ddiv (Finite a) (Finite b) =
     (if b = 0 then (if a = 0 then NaN else if 0 < a then PosInf else NegInf)
      else to_double (a / b))"
| "ddiv PosInf (Finite b) = (if 0 \<le> b then PosInf else NegInf)"
| "ddiv NegInf (Finite b) = (if 0 \<le> b then NegInf else PosInf)"
| "ddiv (Finite a) PosInf = Finite 0"
| "ddiv (Finite a) NegInf = Finite 0"
| "ddiv _ _ = NaN"

definition dgt :: "double \<Rightarrow> double \<Rightarrow> bool" where
  "dgt x y =
     (case (x, y) of
        (NaN, _) \<Rightarrow> False
      | (_, NaN) \<Rightarrow> False
      | (PosInf, PosInf) \<Rightarrow> False
      | (PosInf, _) \<Rightarrow> True
      | (_, PosInf) \<Rightarrow> False
      | (NegInf, _) \<Rightarrow> False
      | (_, NegInf) \<Rightarrow> True
      | (Finite a, Finite b) \<Rightarrow> b < a)"

subsection \<open>Number.prototype.toFixed\<close>

text \<open>
  For a finite value of magnitude at least \<open>10 ^ 21\<close>, \<^verbatim>\<open>toFixed\<close> gives up the fixed
  notation and returns \<^verbatim>\<open>ToString\<close> of the number: the shortest decimal digit string
  \<open>s\<close> (of \<open>k\<close> digits) such that \<open>s * 10 ^ (n - k)\<close> converts back to the same double,
  written in exponent notation \<^verbatim>\<open>d.ddde+N\<close>. Such a double is an integer, of \<open>n\<close> digits
  say. Either the next power of ten \<open>10 ^ n\<close> converts back to it, and then the digit
  string is \<open>1\<close> with one more digit in the exponent; or the candidates for \<open>s\<close> are the
  two \<open>k\<close>-digit numbers around it, and seventeen digits always suffice.
\<close>

definition digit_candidates :: "rat \<Rightarrow> nat \<Rightarrow> nat \<Rightarrow> nat list" where
  "digit_candidates x n k =
     (let p = 10 ^ (n - k); lo = nat \<lfloor>x\<rfloor> div p
      in filter (\<lambda>s. 10 ^ (k - 1) \<le> s \<and> s < 10 ^ k \<and> to_double (of_nat (s * p)) = Finite x)
           [lo, lo + 1])"

definition pick_digits :: "rat \<Rightarrow> nat \<Rightarrow> nat \<Rightarrow> nat option" where
  "pick_digits x n k =
     (case digit_candidates x n k of
        [] \<Rightarrow> None
      | [s] \<Rightarrow> Some s
      | s # t # _ \<Rightarrow>
          (let p = 10 ^ (n - k); below = x - of_nat (s * p); above = of_nat (t * p) - x
           in Some (if below < above then s else if above < below then t
                    else if even s then s else t)))"

fun shortest_digits :: "rat \<Rightarrow> nat \<Rightarrow> nat list \<Rightarrow> nat option" where
  "shortest_digits x n [] = None"
| "shortest_digits x n (k # ks) =
     (case pick_digits x n k of Some s \<Rightarrow> Some s | None \<Rightarrow> shortest_digits x n ks)"

definition exponent_notation :: "string \<Rightarrow> nat \<Rightarrow> string" where
  "exponent_notation ds n =
     (case ds of
        [] \<Rightarrow> []
      | d # rest \<Rightarrow> (if rest = [] then [d] else d # CHR ''.'' # rest) @ ''e+'' @ dec_nat (n - 1))"

fun digit_count :: "nat \<Rightarrow> nat" where
  "digit_count n = (if n < 10 then 1 else digit_count (n div 10) + 1)"

declare digit_count.simps [simp del]

definition ToString_large :: "rat \<Rightarrow> string" where
  "ToString_large x =
     (let N = nat \<lfloor>x\<rfloor>; n = digit_count N
      in if to_double (of_nat (10 ^ n)) = Finite x then exponent_notation ''1'' (n + 1)
         else exponent_notation
                (case shortest_digits x n [1, 2, 3, 4, 5, 6, 7, 8, 9, 10, 11, 12, 13, 14, 15, 16, 17] of
                   Some s \<Rightarrow> dec_nat s
                 | None \<Rightarrow> dec_nat N) n)"

text \<open>
  Below \<open>10 ^ 21\<close> the result is the integer \<open>n\<close> nearest to \<open>x * 10 ^ f\<close> (the larger one
  on a tie), written in decimal, padded with zeros to at least \<open>f + 1\<close> digits, with a
  point before the last \<open>f\<close> digits. The argument \<open>f\<close> is 4 at the only call site, so the
  range check on it is left out.
\<close>

definition point_before_last :: "nat \<Rightarrow> string \<Rightarrow> string" where
  "point_before_last f m =
     (let z = replicate (f + 1 - length m) (CHR ''0'') @ m; k = length z
      in take (k - f) z @ [CHR ''.''] @ drop (k - f) z)"

definition toFixed :: "double \<Rightarrow> nat \<Rightarrow> string" where
  "toFixed x f =
     (case x of
        NaN \<Rightarrow> ''NaN''
      | PosInf \<Rightarrow> ''Infinity''
      | NegInf \<Rightarrow> ''-Infinity''
      | Finite r \<Rightarrow>
          (let s = (if r < 0 then [CHR ''-''] else []); a = \<bar>r\<bar>
           in if 10 ^ 21 \<le> a then s @ ToString_large a
              else (let m = dec_nat (nat \<lfloor>a * 10 ^ f + 1 / 2\<rfloor>)
                    in s @ (if f = 0 then m else point_before_last f m))))"

text \<open>
  A string has exactly four fractional digits when it is an optional minus sign, at
  least one digit, a point and four digits.
\<close>

definition is_digit :: "char \<Rightarrow> bool" where
  "is_digit c = (c \<in> set ''0123456789'')"

definition four_fraction_digits :: "string \<Rightarrow> bool" where
  "four_fraction_digits str =
     (let u = (case str of [] \<Rightarrow> [] | c # cs \<Rightarrow> if c = CHR ''-'' then cs else c # cs);
          ip = takeWhile is_digit u; rest = dropWhile is_digit u
      in ip \<noteq> [] \<and>
         (case rest of
            [] \<Rightarrow> False
          | c # fs \<Rightarrow> c = CHR ''.'' \<and> length fs = 4 \<and> list_all is_digit fs))"

section \<open>The wallet session service (frontend/src/services/wallet.js)\<close>

subsection \<open>Connector objects, environment and observable effects\<close>

text \<open>
  The connector and the wallet it returns are external: their methods are functions of
  an abstract world state \<open>'w\<close> that return an outcome (\<open>Inl\<close> a rejection) and the next
  world. A property that may be \<^verbatim>\<open>undefined\<close> is an \<open>option\<close>. The service's own
  effects (connector calls, alerts, console output, the callback) are recorded in a
  trace, in program order.
\<close>

record call =
  contractAddress :: string
  entrypoint :: string
  calldata :: "string list"

record 'w account =
  address :: "string option"
  callContract :: "call \<Rightarrow> 'w \<Rightarrow> string list outcome \<times> 'w"

record 'w wallet =
  selectedAddress :: "string option"
  account :: "'w account option"
  enable :: "'w \<Rightarrow> bool outcome \<times> 'w"

text \<open>
  What \<^verbatim>\<open>await connect()\<close> resolves to: no object at all (destructuring it throws), or an
  object whose \<^verbatim>\<open>wallet\<close> property is absent or a wallet.
\<close>

datatype 'w connection = NoObject | Connection "'w wallet option"

record connect_options =
  include' :: "string list"
  modalMode :: string
  modalTheme :: string

datatype icon = ETH | USDC | STRK

record balance_entry =
  icon :: icon
  title :: string
  balance :: string

datatype logarg = LogStr string | LogErr js_error | LogMsg js_error

datatype event =
    Connect "connect_options option"
  | Enable
  | CallContract call
  | Alert string
  | ConsoleLog "logarg list"
  | ConsoleError "logarg list"
  | SetBalances "balance_entry list"

record ('w, 'e) st =
  world :: 'w
  trace :: "'e list"

definition emit :: "'e \<Rightarrow> ('w, 'e) st \<Rightarrow> ('w, 'e) st" where
  "emit e s = s\<lparr>trace := trace s @ [e]\<rparr>"

definition call_env :: "'e \<Rightarrow> ('w \<Rightarrow> 'a \<times> 'w) \<Rightarrow> ('w, 'e) st \<Rightarrow> 'a \<times> ('w, 'e) st" where
  "call_env e f s = (case f (world s) of (r, w') \<Rightarrow> (r, \<lparr>world = w', trace = trace s @ [e]\<rparr>))"

text \<open>
  The token addresses come from \<^verbatim>\<open>utils/constants\<close> and the flag from the process
  environment; both are parameters of the model.
\<close>

record 'w wallet_env =
  REACT_APP_IS_DEV :: "string option"
  connect :: "connect_options option \<Rightarrow> 'w \<Rightarrow> 'w connection outcome \<times> 'w"
  ETH_ADDRESS :: string
  USDC_ADDRESS :: string
  STRK_ADDRESS :: string

definition CRM_TOKEN_ADDRESS :: string where
  "CRM_TOKEN_ADDRESS = ''0x051c4b1fe3bf6774b87ad0b15ef5d1472759076e42944fff9b9f641ff13e5bbe''"

definition balanceOf_call :: "string \<Rightarrow> string \<Rightarrow> call" where
  "balanceOf_call tokenAddress walletAddress =
     \<lparr>contractAddress = tokenAddress, entrypoint = ''balanceOf'', calldata = [walletAddress]\<rparr>"

definition truthy :: "string option \<Rightarrow> bool" where
  "truthy v = (case v of None \<Rightarrow> False | Some s \<Rightarrow> s \<noteq> [])"

subsection \<open>checkForCRMToken\<close>

definition checkForCRMToken_try ::
  "'w wallet_env \<Rightarrow> string \<Rightarrow> ('w, event) st \<Rightarrow> bool outcome \<times> ('w, event) st" where
  "checkForCRMToken_try env walletAddress s =
     (case call_env (Connect None) (connect env None) s of
        (Inl err, s1) \<Rightarrow> (Inl err, s1)
      | (Inr NoObject, s1) \<Rightarrow> (Inl TypeError, s1)
      | (Inr (Connection None), s1) \<Rightarrow> (Inl (Error ''Wallet not connected''), s1)
      | (Inr (Connection (Some wallet)), s1) \<Rightarrow>
          (case account wallet of
             None \<Rightarrow> (Inl TypeError, s1)
           | Some acct \<Rightarrow>
               (let rq = balanceOf_call CRM_TOKEN_ADDRESS walletAddress in
                case call_env (CallContract rq) (callContract acct rq) s1 of
                  (Inl err, s2) \<Rightarrow> (Inl err, s2)
                | (Inr response, s2) \<Rightarrow>
                    (case BigInt (index0 response) of
                       Inl err \<Rightarrow> (Inl err, s2)
                     | Inr b \<Rightarrow>
                         (let balance = BigInt_toString b in
                          if dgt (Number balance) (Finite 0) then (Inr True, s2)
                          else (Inr False,
                                emit (Alert ''Beta testing is allowed only for users who hold the CRM token.'') s2))))))"

definition checkForCRMToken ::
  "'w wallet_env \<Rightarrow> string \<Rightarrow> ('w, event) st \<Rightarrow> bool outcome \<times> ('w, event) st" where
  "checkForCRMToken env walletAddress s =
     (if REACT_APP_IS_DEV env = Some ''true'' then
        (Inr True, emit (ConsoleLog [LogStr ''Development mode: Skipping CRM token check.'']) s)
      else
        (case checkForCRMToken_try env walletAddress s of
           (Inl error, s1) \<Rightarrow>
             (Inl error, emit (ConsoleError [LogStr ''Error checking CRM token balance:'', LogErr error]) s1)
         | (Inr r, s1) \<Rightarrow> (Inr r, s1)))"

subsection \<open>connectWallet\<close>

definition connectWallet_try ::
  "'w wallet_env \<Rightarrow> ('w, event) st \<Rightarrow> string outcome \<times> ('w, event) st" where
  "connectWallet_try env s =
     (let s0 = emit (ConsoleLog [LogStr ''Attempting to connect to wallet...'']) s;
          opts = \<lparr>include' = [''argentX'', ''braavos''], modalMode = ''alwaysAsk'', modalTheme = ''light''\<rparr>
      in case call_env (Connect (Some opts)) (connect env (Some opts)) s0 of
           (Inl err, s1) \<Rightarrow> (Inl err, s1)
         | (Inr NoObject, s1) \<Rightarrow> (Inl TypeError, s1)
         | (Inr (Connection None), s1) \<Rightarrow>
             (Inl (Error ''Failed to connect to wallet''), emit (ConsoleError [LogStr ''No wallet found'']) s1)
         | (Inr (Connection (Some wallet)), s1) \<Rightarrow>
             (case call_env Enable (enable wallet) s1 of
                (Inl err, s2) \<Rightarrow> (Inl err, s2)
              | (Inr _, s2) \<Rightarrow>
                  (case (if truthy (selectedAddress wallet) then Inr (selectedAddress wallet)
                         else (case account wallet of
                                 None \<Rightarrow> Inl TypeError
                               | Some acct \<Rightarrow> Inr (address acct))) of
                     Inl err \<Rightarrow> (Inl err, s2)
                   | Inr None \<Rightarrow> (Inl (Error ''No wallet address found''), s2)
                   | Inr (Some a) \<Rightarrow>
                       if a = [] then (Inl (Error ''No wallet address found''), s2)
                       else (Inr a,
                             emit (ConsoleLog [LogStr ''Wallet successfully connected. Address:'', LogStr a]) s2))))"

definition connectWallet ::
  "'w wallet_env \<Rightarrow> ('w, event) st \<Rightarrow> string outcome \<times> ('w, event) st" where
  "connectWallet env s =
     (case connectWallet_try env s of
        (Inl error, s1) \<Rightarrow>
          (Inl error, emit (ConsoleError [LogStr ''Error connecting wallet:'', LogMsg error]) s1)
      | (Inr a, s1) \<Rightarrow> (Inr a, s1))"

subsection \<open>getTokenBalance and getTokenBalances\<close>

definition tokenDecimals :: "'w wallet_env \<Rightarrow> string \<Rightarrow> nat" where
  "tokenDecimals env tokenAddress = (if tokenAddress = USDC_ADDRESS env then 6 else 18)"

text \<open>Lines 105 to 107: from the response of \<^verbatim>\<open>balanceOf\<close> to the readable balance.\<close>

definition readableBalance :: "'w wallet_env \<Rightarrow> string \<Rightarrow> string list \<Rightarrow> string outcome" where
  "readableBalance env tokenAddress response =
     (case BigInt (index0 response) of
        Inl err \<Rightarrow> Inl err
      | Inr b \<Rightarrow>
          (let balance = BigInt_toString b
           in Inr (toFixed (ddiv (Number balance) (pow10 (tokenDecimals env tokenAddress))) 4)))"

definition getTokenBalance_try ::
  "'w wallet_env \<Rightarrow> 'w wallet \<Rightarrow> string \<Rightarrow> string \<Rightarrow> ('w, event) st \<Rightarrow> string outcome \<times> ('w, event) st" where
  "getTokenBalance_try env wallet walletAddress tokenAddress s =
     (case account wallet of
        None \<Rightarrow> (Inl TypeError, s)
      | Some acct \<Rightarrow>
          (let rq = balanceOf_call tokenAddress walletAddress in
           case call_env (CallContract rq) (callContract acct rq) s of
             (Inl err, s1) \<Rightarrow> (Inl err, s1)
           | (Inr response, s1) \<Rightarrow>
               (case readableBalance env tokenAddress response of
                  Inl err \<Rightarrow> (Inl err, s1)
                | Inr r \<Rightarrow>
                    (Inr r, emit (ConsoleLog [LogStr (''Balance for token '' @ tokenAddress @ '':''), LogStr r]) s1))))"

definition getTokenBalance ::
  "'w wallet_env \<Rightarrow> 'w wallet \<Rightarrow> string \<Rightarrow> string \<Rightarrow> ('w, event) st \<Rightarrow> string \<times> ('w, event) st" where
  "getTokenBalance env wallet walletAddress tokenAddress s =
     (case getTokenBalance_try env wallet walletAddress tokenAddress s of
        (Inl error, s1) \<Rightarrow>
          (''0'', emit (ConsoleError [LogStr (''Error fetching balance for token '' @ tokenAddress @ '':''),
                                      LogErr error]) s1)
      | (Inr r, s1) \<Rightarrow> (r, s1))"

definition getTokenBalances_try ::
  "'w wallet_env \<Rightarrow> string \<Rightarrow> ('w, event) st \<Rightarrow> (string \<rightharpoonup> string) outcome \<times> ('w, event) st" where
  "getTokenBalances_try env walletAddress s =
     (case call_env (Connect None) (connect env None) s of
        (Inl err, s1) \<Rightarrow> (Inl err, s1)
      | (Inr NoObject, s1) \<Rightarrow> (Inl TypeError, s1)
      | (Inr (Connection None), s1) \<Rightarrow> (Inl (Error ''Wallet not connected''), s1)
      | (Inr (Connection (Some wallet)), s1) \<Rightarrow>
          (case getTokenBalance env wallet walletAddress (ETH_ADDRESS env) s1 of (eth, s2) \<Rightarrow>
           case getTokenBalance env wallet walletAddress (USDC_ADDRESS env) s2 of (usdc, s3) \<Rightarrow>
           case getTokenBalance env wallet walletAddress (STRK_ADDRESS env) s3 of (strk, s4) \<Rightarrow>
             (Inr [''ETH'' \<mapsto> eth, ''USDC'' \<mapsto> usdc, ''STRK'' \<mapsto> strk], s4)))"

definition getTokenBalances ::
  "'w wallet_env \<Rightarrow> string \<Rightarrow> ('w, event) st \<Rightarrow> (string \<rightharpoonup> string) outcome \<times> ('w, event) st" where
  "getTokenBalances env walletAddress s =
     (case getTokenBalances_try env walletAddress s of
        (Inl error, s1) \<Rightarrow>
          (Inl error, emit (ConsoleError [LogStr ''Error fetching token balances:'', LogErr error]) s1)
      | (Inr tokenBalances, s1) \<Rightarrow> (Inr tokenBalances, s1))"

subsection \<open>getBalances\<close>

text \<open>
  \<^verbatim>\<open>walletId\<close> is a string or absent; the empty string is falsy too. The callback
  \<^verbatim>\<open>setBalances\<close> is a parameter and may itself throw.
\<close>

definition balance_or_default :: "(string \<rightharpoonup> string) \<Rightarrow> string \<Rightarrow> string" where
  "balance_or_default data k = (case data k of None \<Rightarrow> ''0.00'' | Some v \<Rightarrow> v)"

definition getBalances_try ::
  "'w wallet_env \<Rightarrow> string \<Rightarrow> (balance_entry list \<Rightarrow> 'w \<Rightarrow> unit outcome \<times> 'w) \<Rightarrow>
     ('w, event) st \<Rightarrow> unit outcome \<times> ('w, event) st" where
  "getBalances_try env walletId setBalances s =
     (case getTokenBalances env walletId s of
        (Inl err, s1) \<Rightarrow> (Inl err, s1)
      | (Inr data, s1) \<Rightarrow>
          (let updatedBalances =
                 [\<lparr>icon = ETH, title = ''ETH'', balance = balance_or_default data ''ETH''\<rparr>,
                  \<lparr>icon = USDC, title = ''USDC'', balance = balance_or_default data ''USDC''\<rparr>,
                  \<lparr>icon = STRK, title = ''STRK'', balance = balance_or_default data ''STRK''\<rparr>]
           in call_env (SetBalances updatedBalances) (setBalances updatedBalances) s1))"

definition getBalances ::
  "'w wallet_env \<Rightarrow> string option \<Rightarrow> (balance_entry list \<Rightarrow> 'w \<Rightarrow> unit outcome \<times> 'w) \<Rightarrow>
     ('w, event) st \<Rightarrow> unit outcome \<times> ('w, event) st" where
  "getBalances env walletId setBalances s =
     (case walletId of
        None \<Rightarrow> (Inr (), s)
      | Some wid \<Rightarrow>
          if wid = [] then (Inr (), s)
          else
            (case getBalances_try env wid setBalances s of
               (Inl error, s1) \<Rightarrow>
                 (Inr (), emit (ConsoleError [LogStr ''Error fetching user balances:'', LogErr error]) s1)
             | (Inr u, s1) \<Rightarrow> (Inr (), s1)))"

section \<open>The contract deployment service (frontend/src/services/contract.js)\<close>

text \<open>
  Modelled from the spec: the data of \<^verbatim>\<open>services/contract.js\<close>, a module that is not among
  the sources (its test suite is). The connector object of
  this service carries \<^verbatim>\<open>isConnected\<close> and \<^verbatim>\<open>account\<close>, the backend is reached through
  \<^verbatim>\<open>GET /api/check-user\<close> and \<^verbatim>\<open>POST /api/update-user-contract\<close>, and the deployment
  payload is built by \<^verbatim>\<open>getDeployContractData\<close> from static configuration (a parameter
  here, of an arbitrary payload type \<open>'p\<close>).
\<close>

record deploy_response =
  transaction_hash :: string
  contract_address :: string

record deployment =
  transactionHash :: string
  contractAddress' :: string

record update_body =
  wallet_id :: string
  contract_address' :: string

record check_user =
  is_contract_deployed :: bool

record ('w, 'p) deployer =
  account_deployContract :: "'p \<Rightarrow> 'w \<Rightarrow> deploy_response outcome \<times> 'w"
  account_waitForTransaction :: "string \<Rightarrow> 'w \<Rightarrow> unit outcome \<times> 'w"

record ('w, 'p) starknet =
  isConnected :: bool
  account' :: "('w, 'p) deployer option"

datatype 'p cevent =
    Connect'
  | DeployContract 'p
  | WaitForTransaction string
  | HttpGet string
  | HttpPost string update_body
  | ConsoleError' "logarg list"

record ('w, 'p) contract_env =
  connect' :: "'w \<Rightarrow> ('w, 'p) starknet outcome \<times> 'w"
  getDeployContractData :: "string \<Rightarrow> 'p"
  axios_get :: "string \<Rightarrow> 'w \<Rightarrow> check_user outcome \<times> 'w"
  axios_post :: "string \<Rightarrow> update_body \<Rightarrow> 'w \<Rightarrow> unit outcome \<times> 'w"

text \<open>
  Modelled from the spec: the function \<^verbatim>\<open>deployContract\<close> of \<^verbatim>\<open>services/contract.js\<close>, which
  is missing from the sources. It connects; fails with the error \<^verbatim>\<open>Wallet not connected\<close>
  if the connector reports a disconnected state; builds the deployment payload from
  static configuration; invokes \<^verbatim>\<open>account.deployContract(payload)\<close>, then blocks on
  \<^verbatim>\<open>account.waitForTransaction(transactionHash)\<close> before returning
  \<^verbatim>\<open>{transactionHash, contractAddress}\<close>. There is no retry: an error from connect, deploy
  or wait propagates to the caller as it is. A connected object without an account makes
  the method call throw a TypeError.
\<close>

definition deployContract ::
  "('w, 'p) contract_env \<Rightarrow> string \<Rightarrow> ('w, 'p cevent) st \<Rightarrow> deployment outcome \<times> ('w, 'p cevent) st" where
  "deployContract env walletId s =
     (case call_env Connect' (connect' env) s of
        (Inl err, s1) \<Rightarrow> (Inl err, s1)
      | (Inr starknet, s1) \<Rightarrow>
          if \<not> isConnected starknet then (Inl (Error ''Wallet not connected''), s1)
          else
            (let payload = getDeployContractData env walletId in
             case account' starknet of
               None \<Rightarrow> (Inl TypeError, s1)
             | Some acct \<Rightarrow>
                 (case call_env (DeployContract payload) (account_deployContract acct payload) s1 of
                    (Inl err, s2) \<Rightarrow> (Inl err, s2)
                  | (Inr result, s2) \<Rightarrow>
                      (case call_env (WaitForTransaction (transaction_hash result))
                              (account_waitForTransaction acct (transaction_hash result)) s2 of
                         (Inl err, s3) \<Rightarrow> (Inl err, s3)
                       | (Inr _, s3) \<Rightarrow>
                           (Inr \<lparr>transactionHash = transaction_hash result,
                                 contractAddress' = contract_address result\<rparr>, s3)))))"

text \<open>
  Modelled from the spec: the function \<^verbatim>\<open>checkAndDeployContract\<close> of
  \<^verbatim>\<open>services/contract.js\<close>, which is missing from the sources. It queries the backend status
  (\<^verbatim>\<open>GET /api/check-user?wallet_id=...\<close>); if the contract is already deployed it returns
  immediately; otherwise it performs \<^verbatim>\<open>deployContract\<close> and then reports the new address to
  the backend (\<^verbatim>\<open>POST /api/update-user-contract\<close> with \<^verbatim>\<open>{wallet_id, contract_address}\<close>).
  A failure at any step is logged with the fixed message \<^verbatim>\<open>Error checking contract status:\<close>
  and thrown again.
\<close>

definition checkAndDeployContract_try ::
  "('w, 'p) contract_env \<Rightarrow> string \<Rightarrow> ('w, 'p cevent) st \<Rightarrow> unit outcome \<times> ('w, 'p cevent) st" where
  "checkAndDeployContract_try env walletId s =
     (let url = ''/api/check-user?wallet_id='' @ walletId in
      case call_env (HttpGet url) (axios_get env url) s of
        (Inl err, s1) \<Rightarrow> (Inl err, s1)
      | (Inr response, s1) \<Rightarrow>
          if is_contract_deployed response then (Inr (), s1)
          else
            (case deployContract env walletId s1 of
               (Inl err, s2) \<Rightarrow> (Inl err, s2)
             | (Inr result, s2) \<Rightarrow>
                 (let body = \<lparr>wallet_id = walletId, contract_address' = contractAddress' result\<rparr> in
                  case call_env (HttpPost ''/api/update-user-contract'' body)
                         (axios_post env ''/api/update-user-contract'' body) s2 of
                    (Inl err, s3) \<Rightarrow> (Inl err, s3)
                  | (Inr _, s3) \<Rightarrow> (Inr (), s3))))"

text \<open>
  Modelled from the spec: the error handler around the body of \<^verbatim>\<open>checkAndDeployContract\<close>
  (the module is missing from the sources): log with the fixed message, then throw again.
\<close>

definition checkAndDeployContract ::
  "('w, 'p) contract_env \<Rightarrow> string \<Rightarrow> ('w, 'p cevent) st \<Rightarrow> unit outcome \<times> ('w, 'p cevent) st" where
  "checkAndDeployContract env walletId s =
     (case checkAndDeployContract_try env walletId s of
        (Inl error, s1) \<Rightarrow>
          (Inl error, emit (ConsoleError' [LogStr ''Error checking contract status:'', LogErr error]) s1)
      | (Inr u, s1) \<Rightarrow> (Inr (), s1))"

section \<open>Vocabulary of the properties\<close>

text \<open>
  The partial-failure policy in the words of the specification: a token whose read fails
  is reported as \<^verbatim>\<open>'0'\<close>, a token whose read succeeds keeps its formatted value.
\<close>

definition expected_balance :: "'w wallet_env \<Rightarrow> string \<Rightarrow> string list outcome \<Rightarrow> string" where
  "expected_balance env tokenAddress read =
     (case read of
        Inl _ \<Rightarrow> ''0''
      | Inr response \<Rightarrow>
          (case readableBalance env tokenAddress response of Inl _ \<Rightarrow> ''0'' | Inr r \<Rightarrow> r))"

text \<open>
  The number a fixed-point string denotes: its digits read as one decimal numeral, scaled
  by the number of digits after the point.
\<close>

definition decimal_value :: "string \<Rightarrow> rat option" where
  "decimal_value str =
     (let ip = takeWhile (\<lambda>c. c \<noteq> CHR ''.'') str;
          fp = drop 1 (dropWhile (\<lambda>c. c \<noteq> CHR ''.'') str)
      in case parse_digits 10 (ip @ fp) of
           None \<Rightarrow> None
         | Some n \<Rightarrow> Some (of_nat n / 10 ^ length fp))"

definition is_SetBalances :: "event \<Rightarrow> bool" where
  "is_SetBalances e = (case e of SetBalances _ \<Rightarrow> True | _ \<Rightarrow> False)"

section \<open>Example environments\<close>

text \<open>
  A wallet whose account answers \<^verbatim>\<open>balanceOf\<close> per token: one ETH, a failing USDC read,
  three STRK, and for any other contract (the CRM token) a 256-bit balance whose low word
  is zero and whose high word is one.
\<close>

definition example_account :: "unit account" where
  "example_account =
     \<lparr>address = Some ''0x123'',
      callContract = (\<lambda>rq w.
        (if contractAddress rq = ''0xETH'' then Inr [''1000000000000000000'']
         else if contractAddress rq = ''0xUSDC'' then Inl (Error ''Contract call failed'')
         else if contractAddress rq = ''0xSTRK'' then Inr [''3000000000000000000'']
         else Inr [''0x0'', ''0x1''], w))\<rparr>"

definition example_wallet :: "unit wallet" where
  "example_wallet =
     \<lparr>selectedAddress = None, account = Some example_account, enable = (\<lambda>w. (Inr True, w))\<rparr>"

definition connect_to :: "unit wallet option \<Rightarrow> connect_options option \<Rightarrow> unit \<Rightarrow> unit connection outcome \<times> unit" where
  "connect_to wallet opts w = (Inr (Connection wallet), w)"

definition example_env :: "unit wallet_env" where
  "example_env =
     \<lparr>REACT_APP_IS_DEV = Some ''false'',
      connect = connect_to (Some example_wallet),
      ETH_ADDRESS = ''0xETH'', USDC_ADDRESS = ''0xUSDC'', STRK_ADDRESS = ''0xSTRK''\<rparr>"

definition env_with :: "unit wallet option \<Rightarrow> unit wallet_env" where
  "env_with wallet = example_env\<lparr>connect := connect_to wallet\<rparr>"

text \<open>Wallets for the address resolution of \<^verbatim>\<open>connectWallet\<close>.\<close>

definition selected_wallet :: "unit wallet" where
  "selected_wallet = example_wallet\<lparr>selectedAddress := Some ''0xabc''\<rparr>"

definition addressless_wallet :: "unit wallet" where
  "addressless_wallet = example_wallet\<lparr>account := Some (example_account\<lparr>address := None\<rparr>)\<rparr>"

definition accountless_wallet :: "unit wallet" where
  "accountless_wallet = example_wallet\<lparr>account := None\<rparr>"

text \<open>A wallet whose account answers every contract call with the given response.\<close>

definition answering :: "string list \<Rightarrow> unit wallet" where
  "answering response =
     example_wallet\<lparr>account := Some (example_account\<lparr>callContract := (\<lambda>rq w. (Inr response, w))\<rparr>)\<rparr>"

text \<open>
  The account of the wallet test suite (one ETH, two USDC, three STRK), a wallet that
  holds \<open>2 ^ 70 * 10 ^ 6\<close> base units of USDC and nothing else, and a wallet with a
  state: a counter of the calls made so far, whose reads succeed on even counts only.
\<close>

definition funded_wallet :: "unit wallet" where
  "funded_wallet =
     example_wallet\<lparr>account := Some (example_account\<lparr>callContract := (\<lambda>rq w.
       (if contractAddress rq = ''0xETH'' then Inr [''1000000000000000000'']
        else if contractAddress rq = ''0xUSDC'' then Inr [''2000000'']
        else Inr [''3000000000000000000''], w))\<rparr>)\<rparr>"

definition whale_wallet :: "unit wallet" where
  "whale_wallet =
     example_wallet\<lparr>account := Some (example_account\<lparr>callContract := (\<lambda>rq w.
       (if contractAddress rq = ''0xUSDC'' then Inr [''1180591620717411303424000000'']
        else Inr [''0''], w))\<rparr>)\<rparr>"

definition counting_wallet :: "nat wallet" where
  "counting_wallet =
     \<lparr>selectedAddress = Some ''0x123'',
      account = Some \<lparr>address = Some ''0x123'',
                      callContract = (\<lambda>rq w. (if even w then Inr [''2000000''] else Inl (Error ''busy''), Suc w))\<rparr>,
      enable = (\<lambda>w. (Inr True, Suc w))\<rparr>"

definition counting_env :: "nat wallet_env" where
  "counting_env =
     \<lparr>REACT_APP_IS_DEV = None,
      connect = (\<lambda>opts w. (Inr (Connection (Some counting_wallet)), Suc w)),
      ETH_ADDRESS = ''0xETH'', USDC_ADDRESS = ''0xUSDC'', STRK_ADDRESS = ''0xSTRK''\<rparr>"

definition start :: "(unit, event) st" where
  "start = \<lparr>world = (), trace = []\<rparr>"

definition cstart :: "(unit, string cevent) st" where
  "cstart = \<lparr>world = (), trace = []\<rparr>"

definition accepting_callback :: "balance_entry list \<Rightarrow> unit \<Rightarrow> unit outcome \<times> unit" where
  "accepting_callback updatedBalances w = (Inr (), w)"

definition throwing_callback :: "balance_entry list \<Rightarrow> unit \<Rightarrow> unit outcome \<times> unit" where
  "throwing_callback updatedBalances w = (Inl TypeError, w)"

text \<open>
  Backends and connectors for the deployment service: a backend that already knows the
  contract (its connector and its update endpoint fail if they are ever reached), a
  fresh backend with a connected wallet that deploys, and a disconnected session.
\<close>

definition deploying_account :: "(unit, string) deployer" where
  "deploying_account =
     \<lparr>account_deployContract =
        (\<lambda>payload w. (Inr \<lparr>transaction_hash = ''0xabc'', contract_address = ''0xdef''\<rparr>, w)),
      account_waitForTransaction = (\<lambda>h w. (Inr (), w))\<rparr>"

definition fresh_backend :: "(unit, string) contract_env" where
  "fresh_backend =
     \<lparr>connect' = (\<lambda>w. (Inr \<lparr>isConnected = True, account' = Some deploying_account\<rparr>, w)),
      getDeployContractData = (\<lambda>walletId. ''mockContractData''),
      axios_get = (\<lambda>url w. (Inr \<lparr>is_contract_deployed = False\<rparr>, w)),
      axios_post = (\<lambda>url body w. (Inr (), w))\<rparr>"

definition deployed_backend :: "(unit, string) contract_env" where
  "deployed_backend =
     \<lparr>connect' = (\<lambda>w. (Inl (Error ''connector reached''), w)),
      getDeployContractData = (\<lambda>walletId. ''mockContractData''),
      axios_get = (\<lambda>url w. (Inr \<lparr>is_contract_deployed = True\<rparr>, w)),
      axios_post = (\<lambda>url body w. (Inl (Error ''update reached''), w))\<rparr>"

definition disconnected_backend :: "(unit, string) contract_env" where
  "disconnected_backend =
     fresh_backend\<lparr>connect' := (\<lambda>w. (Inr \<lparr>isConnected = False, account' = None\<rparr>, w))\<rparr>"

section \<open>Properties of the built-ins\<close>

subsection \<open>Decimal numerals: printing and parsing\<close>

lemma digit_char_table:
  "digit_char 0 = CHR ''0''" "digit_char 1 = CHR ''1''" "digit_char (Suc 0) = CHR ''1''" "digit_char 2 = CHR ''2''"
  "digit_char 3 = CHR ''3''" "digit_char 4 = CHR ''4''" "digit_char 5 = CHR ''5''"
  "digit_char 6 = CHR ''6''" "digit_char 7 = CHR ''7''" "digit_char 8 = CHR ''8''"
  "digit_char 9 = CHR ''9''"
  by (simp_all add: digit_char_def char_of_def bit_Suc_0_iff)

lemma digit_cases: "d < 10 \<Longrightarrow> d = 0 \<or> d = 1 \<or> d = 2 \<or> d = 3 \<or> d = 4 \<or> d = 5 \<or> d = 6 \<or> d = 7 \<or> d = 8 \<or> d = (9::nat)"
  by arith

lemma is_digit_digit_char: assumes "d < 10" shows "is_digit (digit_char d)"
  using digit_cases[OF assms] by (elim disjE) (simp_all add: digit_char_table is_digit_def)

lemma digit_of_digit_char: assumes "d < 10" shows "digit_of (digit_char d) = Some d"
  using digit_cases[OF assms] by (elim disjE) (simp_all add: digit_char_table digit_of_def)


lemma dec_nat_digits: "list_all is_digit (dec_nat n)"
proof (induction n rule: dec_nat.induct)
  case (1 n)
  show ?case
  proof (cases "n < 10")
    case True
    then show ?thesis by (subst dec_nat.simps) (simp add: is_digit_digit_char)
  next
    case False
    with 1 show ?thesis by (subst dec_nat.simps) (simp add: is_digit_digit_char)
  qed
qed

lemma dec_nat_nonempty: "dec_nat n \<noteq> []"
  by (subst dec_nat.simps) simp

lemma digits_value_snoc:
  "digits_value b acc (xs @ [c]) =
     (case digits_value b acc xs of
        None \<Rightarrow> None
      | Some v \<Rightarrow> (case digit_of c of None \<Rightarrow> None | Some d \<Rightarrow> if d < b then Some (v * b + d) else None))"
  by (induction xs arbitrary: acc) (auto split: option.splits)

lemma digits_value_dec_nat: "digits_value 10 0 (dec_nat n) = Some n"
proof (induction n rule: dec_nat.induct)
  case (1 n)
  show ?case
  proof (cases "n < 10")
    case True
    then show ?thesis by (subst dec_nat.simps) (simp add: digit_of_digit_char)
  next
    case False
    with 1 show ?thesis
      by (subst dec_nat.simps) (simp add: digits_value_snoc digit_of_digit_char)
  qed
qed

lemma parse_digits_dec_nat: "parse_digits 10 (dec_nat n) = Some n"
  by (simp add: parse_digits_def dec_nat_nonempty digits_value_dec_nat)

lemma is_digit_not_ws: "is_digit c \<Longrightarrow> \<not> is_ws c"
  by (auto simp: is_digit_def is_ws_def)

lemma trim_digits: assumes a: "list_all is_digit ds" shows "trim ds = ds"
proof -
  have 1: "dropWhile is_ws ds = ds"
    using a by (cases ds) (auto simp: is_digit_not_ws)
  have "list_all is_digit (rev ds)" using a by (simp add: list_all_iff)
  then have 2: "dropWhile is_ws (rev ds) = rev ds"
    by (cases "rev ds") (auto simp: is_digit_not_ws)
  show ?thesis by (simp add: trim_def 1 2)
qed

lemma trim_minus_digits:
  assumes a: "list_all is_digit ds" and ne: "ds \<noteq> []"
  shows "trim (CHR ''-'' # ds) = CHR ''-'' # ds"
proof -
  have "list_all is_digit (rev ds)" using a by (simp add: list_all_iff)
  then have 2: "dropWhile is_ws (rev ds @ [CHR ''-'']) = rev ds @ [CHR ''-'']"
    using ne by (cases "rev ds") (auto simp: is_digit_not_ws)
  show ?thesis using 2 by (simp add: trim_def is_ws_def)
qed

lemma Number_BigInt_toString:
  "Number (BigInt_toString b) = (if b < 0 then dneg (to_double (of_int (- b))) else to_double (of_int b))"
proof (cases "b < 0")
  case True
  then show ?thesis
    by (simp add: Number_def BigInt_toString_def trim_minus_digits dec_nat_digits dec_nat_nonempty
        parse_digits_dec_nat)
next
  case False
  obtain c cs where d: "dec_nat (nat b) = c # cs"
    using dec_nat_nonempty[of "nat b"] by (cases "dec_nat (nat b)") auto
  have dig: "is_digit c" using dec_nat_digits[of "nat b"] d by simp
  then have c: "c \<noteq> CHR ''-''" "c \<noteq> CHR ''+''" by (auto simp: is_digit_def)
  have p: "parse_digits 10 (c # cs) = Some (nat b)" using parse_digits_dec_nat[of "nat b"] d by simp
  have t: "trim (c # cs) = c # cs" using trim_digits[OF dec_nat_digits[of "nat b"]] d by simp
  show ?thesis using False
    by (simp add: Number_def BigInt_toString_def d t c p)
qed

subsection \<open>Rounding to a double\<close>

lemma pow2_powi: "pow2 k = 2 powi k"
  by (simp add: pow2_def power_int_def power_inverse inverse_eq_divide power_one_over)

lemma pow2_pos: "0 < pow2 k"
  by (simp add: pow2_def)

lemma pow2_diff: "pow2 (m - n) = pow2 m / pow2 n"
  by (simp add: pow2_powi power_int_diff)

lemma pow2_nat: "pow2 (int n) = 2 ^ n"
  by (simp add: pow2_def)

lemma ilog2_bounds: "0 < n \<Longrightarrow> 2 ^ ilog2 n \<le> n \<and> n < 2 ^ (ilog2 n + 1)"
proof (induction n rule: ilog2.induct)
  case (1 n)
  show ?case
  proof (cases "n < 2")
    case True
    with 1 show ?thesis by (subst (1 2) ilog2.simps) simp
  next
    case False
    then have "0 < n div 2" by simp
    with 1 False have ih: "2 ^ ilog2 (n div 2) \<le> n div 2 \<and> n div 2 < 2 ^ (ilog2 (n div 2) + 1)"
      by simp
    have e: "ilog2 n = ilog2 (n div 2) + 1" using False by (subst ilog2.simps) simp
    from ih show ?thesis unfolding e by (simp; linarith)
  qed
qed

lemma round_half_even_ge_floor: "\<lfloor>m\<rfloor> \<le> round_half_even m"
  by (simp add: round_half_even_def Let_def)

lemma round_half_even_le_double: assumes "0 \<le> m" shows "of_int (round_half_even m) \<le> 2 * m"
proof -
  define n where "n = (of_int \<lfloor>m\<rfloor> :: rat)"
  have f: "n \<le> m" unfolding n_def by (rule of_int_floor_le)
  have f0: "0 \<le> n" unfolding n_def using assms by simp
  show ?thesis
  proof (cases "m - n < 1 / 2")
    case True
    then have "round_half_even m = \<lfloor>m\<rfloor>" by (simp add: round_half_even_def Let_def n_def)
    then have "of_int (round_half_even m) = n" by (simp add: n_def)
    then show ?thesis using f f0 by linarith
  next
    case False
    then have "round_half_even m \<le> \<lfloor>m\<rfloor> + 1" by (simp add: round_half_even_def Let_def n_def)
    then have "(of_int (round_half_even m) :: rat) \<le> of_int (\<lfloor>m\<rfloor> + 1)" by (simp only: of_int_le_iff)
    then have "of_int (round_half_even m) \<le> n + 1" by (simp add: n_def)
    moreover have "n + 1 / 2 \<le> m" using False by simp
    ultimately show ?thesis using f0 by linarith
  qed
qed

lemma floor_log2_lower: assumes "0 < q" shows "pow2 (floor_log2 q) \<le> q"
proof (cases "1 \<le> q")
  case True
  define n where "n = nat \<lfloor>q\<rfloor>"
  have "1 \<le> \<lfloor>q\<rfloor>" using True by (simp add: le_floor_iff)
  then have n: "0 < n" "int n = \<lfloor>q\<rfloor>" by (simp_all add: n_def)
  have "2 ^ ilog2 n \<le> n" using ilog2_bounds[OF n(1)] by simp
  then have "(of_nat (2 ^ ilog2 n) :: rat) \<le> of_nat n" by (simp only: of_nat_le_iff)
  then have "(2::rat) ^ ilog2 n \<le> of_nat n" by simp
  also have "(of_nat n :: rat) = of_int \<lfloor>q\<rfloor>" using n(2) by (metis of_int_of_nat_eq)
  also have "of_int \<lfloor>q\<rfloor> \<le> q" by (rule of_int_floor_le)
  finally have "(2::rat) ^ ilog2 n \<le> q" .
  then show ?thesis using True by (simp add: floor_log2_def pow2_nat n_def)
next
  case False
  define n where "n = nat \<lfloor>1 / q\<rfloor>"
  define l where "l = ilog2 n"
  have t: "1 < 1 / q" using False assms by simp
  define z where "z = \<lfloor>1 / q\<rfloor>"
  have "1 \<le> z" unfolding z_def using t by (simp add: le_floor_iff)
  then have "0 < nat z" "int (nat z) = z" by simp_all
  then have n: "0 < n" "int n = \<lfloor>1 / q\<rfloor>" by (simp_all only: n_def z_def)
  have "n < 2 ^ (l + 1)" using ilog2_bounds[OF n(1)] by (simp add: l_def)
  then have "int n < int (2 ^ (l + 1))" by (simp only: of_nat_less_iff)
  then have "\<lfloor>1 / q\<rfloor> < 2 ^ (l + 1)" using n(2) by simp
  then have "1 / q < of_int (2 ^ (l + 1))" by (simp only: floor_less_iff)
  then have "1 / q < 2 ^ (l + 1)" by simp
  then have "1 < 2 ^ (l + 1) * q" using assms by (simp add: field_simps)
  then have "1 / 2 ^ (l + 1) < q" by (simp add: field_simps)
  moreover have "pow2 (- int l - 1) = 1 / 2 ^ (l + 1)"
  proof -
    have "- int l - 1 = - int (l + 1)" by simp
    then show ?thesis by (simp only: pow2_powi power_int_minus_divide power_int_of_nat)
  qed
  ultimately have low: "pow2 (- int l - 1) \<le> q" by simp
  show ?thesis
    using False low by (simp add: floor_log2_def Let_def l_def n_def)
qed

lemma round_pos_positive:
  assumes "1 \<le> q"
  shows "round_pos q = PosInf \<or> (\<exists>r. round_pos q = Finite r \<and> 0 < r)"
proof -
  define e where "e = max (floor_log2 q) (- 1022)"
  have q0: "0 < q" using assms by simp
  have "pow2 e \<le> q"
  proof (cases "floor_log2 q \<le> - 1022")
    case True
    then have "e = - 1022" by (simp add: e_def)
    moreover have "pow2 (- 1022) \<le> 1" by (simp add: pow2_def)
    ultimately show ?thesis using assms by simp
  next
    case False
    then have "e = floor_log2 q" by (simp add: e_def)
    then show ?thesis using floor_log2_lower[OF q0] by simp
  qed
  then have "pow2 (e - 52) \<le> q"
    using pow2_pos[of e] by (simp add: pow2_diff pow2_def[of 52] field_simps)
  then have "1 \<le> q / pow2 (e - 52)" using pow2_pos[of "e - 52"] by (simp add: field_simps)
  then have "1 \<le> \<lfloor>q / pow2 (e - 52)\<rfloor>" by (simp add: le_floor_iff)
  then have "1 \<le> round_half_even (q / pow2 (e - 52))"
    using round_half_even_ge_floor[of "q / pow2 (e - 52)"] by linarith
  then have "(0::rat) < of_int (round_half_even (q / pow2 (e - 52))) * pow2 (e - 52)"
    using pow2_pos[of "e - 52"] by simp
  then show ?thesis by (simp add: round_pos_def Let_def e_def)
qed

lemma round_pos_upper:
  assumes "0 < q" "2 * q < pow2 1024"
  shows "\<exists>r. round_pos q = Finite r \<and> 0 \<le> r \<and> r \<le> 2 * q"
proof -
  define u where "u = pow2 (max (floor_log2 q) (- 1022) - 52)"
  have u: "0 < u" by (simp add: u_def pow2_pos)
  define r where "r = of_int (round_half_even (q / u)) * u"
  have m0: "0 \<le> q / u" using assms u by simp
  have "of_int (round_half_even (q / u)) \<le> 2 * (q / u)" using round_half_even_le_double[OF m0] .
  then have "r \<le> 2 * (q / u) * u" unfolding r_def using u by (simp only: mult_right_mono less_imp_le)
  then have le: "r \<le> 2 * q" using u by simp
  have "0 \<le> round_half_even (q / u)" using round_half_even_ge_floor[of "q / u"] m0
    by (smt (verit) zero_le_floor)
  then have ge: "0 \<le> r" using u by (simp add: r_def)
  have "\<not> pow2 1024 \<le> r" using le assms by simp
  then have "round_pos q = Finite r" by (simp add: round_pos_def Let_def u_def r_def)
  then show ?thesis using le ge by simp
qed

lemma to_double_upper:
  assumes "0 \<le> q" "2 * q < pow2 1024"
  shows "\<exists>r. to_double q = Finite r \<and> 0 \<le> r \<and> r \<le> 2 * q"
proof (cases "q = 0")
  case True
  then show ?thesis by (simp add: to_double_def)
next
  case False
  then have "0 < q" using assms by simp
  then show ?thesis using round_pos_upper[OF _ assms(2)] by (simp add: to_double_def)
qed


lemma to_double_int_positive:
  assumes "0 < (b::int)"
  shows "to_double (of_int b) = PosInf \<or> (\<exists>r. to_double (of_int b) = Finite r \<and> 0 < r)"
proof -
  have "(1::rat) \<le> of_int b" using assms by (simp add: int_one_le_iff_zero_less)
  then show ?thesis using round_pos_positive[of "of_int b"] assms by (simp add: to_double_def)
qed

lemma dgt_zero_cases:
  "dgt PosInf (Finite 0)" "\<not> dgt NegInf (Finite 0)" "dgt (Finite r) (Finite 0) \<longleftrightarrow> 0 < r"
  by (simp_all add: dgt_def)

lemma Number_positive_iff: "dgt (Number (BigInt_toString b)) (Finite 0) \<longleftrightarrow> 0 < b"
proof -
  note N = Number_BigInt_toString[of b]
  consider "0 < b" | "b = 0" | "b < 0" by linarith
  then show ?thesis
  proof cases
    case 1
    then show ?thesis using to_double_int_positive[OF 1] N by (auto simp: dgt_zero_cases)
  next
    case 2
    then show ?thesis using N by (simp add: to_double_def dgt_zero_cases)
  next
    case 3
    then have "0 < - b" by simp
    from to_double_int_positive[OF this] 3 N show ?thesis
      by (auto simp: dgt_zero_cases dneg_def)
  qed
qed

lemma round_pos_nonneg:
  assumes "0 < q"
  shows "round_pos q = PosInf \<or> (\<exists>r. round_pos q = Finite r \<and> 0 \<le> r)"
proof -
  define u where "u = pow2 (max (floor_log2 q) (- 1022) - 52)"
  have u: "0 < u" by (simp add: u_def pow2_pos)
  have "0 \<le> q / u" using assms u by simp
  then have "0 \<le> \<lfloor>q / u\<rfloor>" by simp
  then have "0 \<le> round_half_even (q / u)" using round_half_even_ge_floor[of "q / u"] by linarith
  then have "(0::rat) \<le> of_int (round_half_even (q / u)) * u" using u by simp
  then show ?thesis by (simp add: round_pos_def Let_def u_def)
qed

lemma to_double_nonneg:
  assumes "0 \<le> q"
  shows "to_double q = PosInf \<or> (\<exists>r. to_double q = Finite r \<and> 0 \<le> r)"
proof (cases "q = 0")
  case True
  then show ?thesis by (simp add: to_double_def)
next
  case False
  then have "0 < q" using assms by simp
  then show ?thesis using round_pos_nonneg[of q] by (simp add: to_double_def)
qed

text \<open>
  The rounding is to a nearest value on the grid of the exponent: the exponent brackets
  the argument, and the result differs from it by at most half a unit in the last place.
\<close>

lemma round_half_even_nearest: "\<bar>of_int (round_half_even m) - m\<bar> \<le> 1 / 2"
proof -
  define n where "n = (of_int \<lfloor>m\<rfloor> :: rat)"
  have lo: "n \<le> m" unfolding n_def by (rule of_int_floor_le)
  have hi: "m < n + 1" unfolding n_def by linarith
  consider "m - n < 1 / 2" | "1 / 2 < m - n" | "m - n = 1 / 2" by linarith
  then show ?thesis
  proof cases
    case 1
    then have "of_int (round_half_even m) = n" by (simp add: round_half_even_def Let_def n_def)
    then show ?thesis using 1 lo by linarith
  next
    case 2
    then have "round_half_even m = \<lfloor>m\<rfloor> + 1" by (simp add: round_half_even_def Let_def n_def)
    then have "of_int (round_half_even m) = n + 1" by (simp add: n_def)
    then show ?thesis using 2 hi by linarith
  next
    case 3
    then have "round_half_even m = \<lfloor>m\<rfloor> \<or> round_half_even m = \<lfloor>m\<rfloor> + 1"
      by (simp add: round_half_even_def Let_def n_def)
    then have "of_int (round_half_even m) = n \<or> of_int (round_half_even m) = n + 1"
      by (auto simp: n_def)
    then show ?thesis using 3 by auto
  qed
qed

lemma floor_log2_upper: assumes "0 < q" shows "q < pow2 (floor_log2 q + 1)"
proof (cases "1 \<le> q")
  case True
  define n where "n = nat \<lfloor>q\<rfloor>"
  have "1 \<le> \<lfloor>q\<rfloor>" using True by (simp add: le_floor_iff)
  then have n: "0 < n" "int n = \<lfloor>q\<rfloor>" by (simp_all add: n_def)
  have "n < 2 ^ (ilog2 n + 1)" using ilog2_bounds[OF n(1)] by simp
  then have "int n < int (2 ^ (ilog2 n + 1))" by (simp only: of_nat_less_iff)
  then have "\<lfloor>q\<rfloor> < 2 ^ (ilog2 n + 1)" using n(2) by simp
  then have "q < of_int (2 ^ (ilog2 n + 1))" by (simp only: floor_less_iff)
  then have "q < 2 ^ (ilog2 n + 1)" by simp
  moreover have "pow2 (int (ilog2 n) + 1) = 2 ^ (ilog2 n + 1)"
    using pow2_nat[of "ilog2 n + 1"] by (simp add: add.commute)
  ultimately show ?thesis using True by (simp add: floor_log2_def n_def)
next
  case False
  define n where "n = nat \<lfloor>1 / q\<rfloor>"
  define l where "l = ilog2 n"
  have t: "1 < 1 / q" using False assms by simp
  define z where "z = \<lfloor>1 / q\<rfloor>"
  have "1 \<le> z" unfolding z_def using t by (simp add: le_floor_iff)
  then have "0 < nat z" "int (nat z) = z" by simp_all
  then have n: "0 < n" "int n = \<lfloor>1 / q\<rfloor>" by (simp_all only: n_def z_def)
  have "2 ^ l \<le> n" using ilog2_bounds[OF n(1)] by (simp add: l_def)
  then have "(of_nat (2 ^ l) :: rat) \<le> of_nat n" by (simp only: of_nat_le_iff)
  then have "(2::rat) ^ l \<le> of_nat n" by simp
  also have "(of_nat n :: rat) = of_int \<lfloor>1 / q\<rfloor>" using n(2) by (metis of_int_of_nat_eq)
  also have "of_int \<lfloor>1 / q\<rfloor> \<le> 1 / q" by (rule of_int_floor_le)
  finally have "(2::rat) ^ l \<le> 1 / q" .
  then have "2 ^ l * q \<le> 1" using assms by (simp add: field_simps)
  then have up: "q \<le> 1 / 2 ^ l" by (simp add: field_simps)
  have p: "pow2 (- int l) = 1 / 2 ^ l"
    by (simp only: pow2_powi power_int_minus_divide power_int_of_nat)
  show ?thesis
  proof (cases "pow2 (- int l) \<le> q")
    case True
    then have "floor_log2 q = - int l" using False by (simp add: floor_log2_def Let_def l_def n_def)
    moreover have "pow2 (- int l + 1) = 2 * pow2 (- int l)"
      using power_int_add[of "2::rat" "- int l" 1] by (simp only: pow2_powi) simp
    ultimately show ?thesis using up p assms by simp
  next
    case F: False
    then have "floor_log2 q = - int l - 1" using False by (simp add: floor_log2_def Let_def l_def n_def)
    then show ?thesis using F by simp
  qed
qed

lemma round_pos_half_ulp:
  assumes "0 < q" and "round_pos q = Finite r"
  shows "\<bar>r - q\<bar> \<le> pow2 (max (floor_log2 q) (- 1022) - 52) / 2"
proof -
  define u where "u = pow2 (max (floor_log2 q) (- 1022) - 52)"
  have u: "0 < u" by (simp add: u_def pow2_pos)
  have r: "r = of_int (round_half_even (q / u)) * u"
    using assms(2) by (simp add: round_pos_def Let_def u_def split: if_splits)
  have "\<bar>of_int (round_half_even (q / u)) - q / u\<bar> * u \<le> 1 / 2 * u"
    using round_half_even_nearest[of "q / u"] u by (simp only: mult_right_mono less_imp_le)
  moreover have "\<bar>of_int (round_half_even (q / u)) - q / u\<bar> * u = \<bar>r - q\<bar>"
  proof -
    have "\<bar>of_int (round_half_even (q / u)) - q / u\<bar> * u = \<bar>(of_int (round_half_even (q / u)) - q / u) * u\<bar>"
      using u by (simp add: abs_mult)
    also have "(of_int (round_half_even (q / u)) - q / u) * u = r - q"
      using u by (simp add: r field_simps)
    finally show ?thesis .
  qed
  ultimately show ?thesis by (simp add: u_def)
qed

lemma quotient_nonneg:
  assumes "0 \<le> b" and "ddiv (Number (BigInt_toString b)) (pow10 d) = Finite x"
  shows "0 \<le> x"
proof -
  have N: "Number (BigInt_toString b) = to_double (of_int b)"
    using assms(1) by (simp add: Number_BigInt_toString)
  have "(0::rat) \<le> of_int b" using assms(1) by simp
  from to_double_nonneg[OF this] show ?thesis
  proof
    assume "to_double (rat_of_int b) = PosInf"
    then show ?thesis using assms(2) N by (simp add: pow10_def)
  next
    assume "\<exists>r. to_double (rat_of_int b) = Finite r \<and> 0 \<le> r"
    then obtain r where r: "to_double (rat_of_int b) = Finite r" "0 \<le> r" by blast
    have "0 \<le> r / 10 ^ d" using r(2) by simp
    from to_double_nonneg[OF this] show ?thesis
      using assms(2) N r(1) by (auto simp: pow10_def)
  qed
qed

lemma quotient_below:
  assumes "0 \<le> b" and "4 * b < 10 ^ (21 + d)" and "d \<le> 18"
  shows "\<exists>x. ddiv (Number (BigInt_toString b)) (pow10 d) = Finite x \<and> 0 \<le> x \<and> x < 10 ^ 21"
proof -
  have N: "Number (BigInt_toString b) = to_double (of_int b)"
    using assms(1) by (simp add: Number_BigInt_toString)
  have b0: "(0::rat) \<le> of_int b" using assms(1) by simp
  have "(10::int) ^ (21 + d) \<le> 10 ^ 39" using assms(3) by (intro power_increasing) simp_all
  then have "4 * b < 10 ^ 39" using assms(2) by linarith
  then have "rat_of_int (4 * b) < of_int (10 ^ 39)" by (simp only: of_int_less_iff)
  then have b39: "4 * rat_of_int b < 10 ^ 39" by simp
  have big: "(10::rat) ^ 39 < pow2 1024" by (simp add: pow2_def)
  have "2 * rat_of_int b < pow2 1024" using b39 big b0 by linarith
  from to_double_upper[OF b0 this] obtain r where
    r: "to_double (rat_of_int b) = Finite r" "0 \<le> r" "r \<le> 2 * rat_of_int b" by blast
  have q0: "0 \<le> r / 10 ^ d" using r(2) by simp
  have "r / 10 ^ d \<le> r" using r(2) by (simp add: field_simps mult_le_cancel_left1 self_le_power)
  then have "2 * (r / 10 ^ d) < pow2 1024" using r(3) b39 big by linarith
  from to_double_upper[OF q0 this] obtain x where
    x: "to_double (r / 10 ^ d) = Finite x" "0 \<le> x" "x \<le> 2 * (r / 10 ^ d)" by blast
  have "rat_of_int (4 * b) < of_int (10 ^ (21 + d))" using assms(2) by (simp only: of_int_less_iff)
  then have "4 * rat_of_int b < 10 ^ 21 * 10 ^ d" by (simp add: power_add)
  then have "4 * rat_of_int b / 10 ^ d < 10 ^ 21" by (simp add: field_simps)
  moreover have "2 * (r / 10 ^ d) \<le> 4 * rat_of_int b / 10 ^ d"
    using r(3) by (simp add: field_simps)
  ultimately have "x < 10 ^ 21" using x(3) by linarith
  then show ?thesis using x N r(1) by (simp add: pow10_def)
qed


text \<open>
  In the normal range the relative error of a rounding is at most \<open>2 ^ -53\<close>; the
  quotient \<^verbatim>\<open>Number(balance) / 10 ** d\<close> is two roundings away from \<open>balance / 10 ^ d\<close>.
\<close>

lemma pow2_mono: "a \<le> b \<Longrightarrow> pow2 a \<le> pow2 b"
  by (simp add: pow2_powi power_int_increasing)

lemma round_pos_relative:
  assumes big: "pow2 (- 1022) \<le> q" and r: "round_pos q = Finite r"
  shows "\<bar>r - q\<bar> \<le> q / 2 ^ 53"
proof -
  have q0: "0 < q" using big pow2_pos[of "- 1022"] by linarith
  define e where "e = floor_log2 q"
  have "- 1022 \<le> e"
  proof (rule ccontr)
    assume "\<not> - 1022 \<le> e"
    then have "e + 1 \<le> - 1022" by simp
    then have "pow2 (e + 1) \<le> pow2 (- 1022)" by (rule pow2_mono)
    moreover have "q < pow2 (e + 1)" unfolding e_def by (rule floor_log2_upper[OF q0])
    ultimately show False using big by linarith
  qed
  then have m: "max (floor_log2 q) (- 1022) = e" by (simp add: e_def)
  have "\<bar>r - q\<bar> \<le> pow2 (e - 52) / 2"
    using round_pos_half_ulp[OF q0 r] by (simp only: m)
  moreover have "pow2 (e - 52) = pow2 e / 2 ^ 52"
    using pow2_diff[of e 52] pow2_nat[of 52] by simp
  moreover have "pow2 e \<le> q" unfolding e_def by (rule floor_log2_lower[OF q0])
  ultimately show ?thesis by (simp add: field_simps)
qed

lemma to_double_relative:
  assumes "q = 0 \<or> pow2 (- 1022) \<le> q" and "to_double q = Finite r"
  shows "\<bar>r - q\<bar> \<le> q / 2 ^ 53"
proof (cases "q = 0")
  case True
  then show ?thesis using assms(2) by (simp add: to_double_def)
next
  case False
  then have big: "pow2 (- 1022) \<le> q" using assms(1) by simp
  then have "0 < q" using pow2_pos[of "- 1022"] by linarith
  then have "round_pos q = Finite r" using assms(2) by (simp add: to_double_def)
  from round_pos_relative[OF big this] show ?thesis .
qed

lemma quotient_accuracy:
  assumes b: "0 \<le> b" and d: "d \<le> 18"
    and x: "ddiv (Number (BigInt_toString b)) (pow10 d) = Finite x"
  shows "\<bar>x - of_int b / 10 ^ d\<bar> \<le> 3 * (of_int b / 10 ^ d) / 2 ^ 53"
proof -
  have N: "Number (BigInt_toString b) = to_double (of_int b)"
    using b by (simp add: Number_BigInt_toString)
  have b0: "(0::rat) \<le> of_int b" using b by simp
  obtain r1 where r1: "to_double (rat_of_int b) = Finite r1" "0 \<le> r1"
    using to_double_nonneg[OF b0] x N by (auto simp: pow10_def)
  have x': "to_double (r1 / 10 ^ d) = Finite x" using x N r1(1) by (simp add: pow10_def)
  show ?thesis
  proof (cases "b = 0")
    case True
    then have "r1 = 0" using r1(1) by (simp add: to_double_def)
    then have "x = 0" using x' by (simp add: to_double_def)
    then show ?thesis using True by simp
  next
    case False
    then have b1: "(1::rat) \<le> of_int b" using b by (simp add: int_one_le_iff_zero_less)
    define B where "B = rat_of_int b / 10 ^ d"
    define E where "E = (1::rat) / 2 ^ 53"
    define P where "P = (10::rat) ^ d"
    have P: "0 < P" "P \<le> 10 ^ 18"
    proof -
      show "0 < P" by (simp add: P_def)
      show "P \<le> 10 ^ 18" unfolding P_def using d by (intro power_increasing) simp_all
    qed
    have E: "0 < E" "E \<le> 1 / 2" by (simp_all add: E_def)
    have small: "pow2 (- 1022) \<le> 1" by (simp add: pow2_def)
    have "rat_of_int b = 0 \<or> pow2 (- 1022) \<le> rat_of_int b" using b1 small by linarith
    from to_double_relative[OF this r1(1)]
    have e1: "\<bar>r1 - rat_of_int b\<bar> \<le> rat_of_int b * E" by (simp add: E_def)
    have "rat_of_int b * E \<le> rat_of_int b * (1 / 2)" using E(2) b0 by (rule mult_left_mono)
    with e1 have half: "rat_of_int b / 2 \<le> r1" "r1 \<le> 2 * rat_of_int b" by (simp_all; linarith)+
    have q2: "1 / 2 / 10 ^ 18 \<le> r1 / P"
    proof -
      have "1 / 2 / 10 ^ 18 \<le> (1 / 2) / P" using P by (simp add: field_simps)
      also have "\<dots> \<le> r1 / P" using half(1) b1 P(1) by (simp add: field_simps; linarith)
      finally show ?thesis .
    qed
    have "pow2 (- 1022) \<le> (1::rat) / 2 / 10 ^ 18" by (simp add: pow2_def)
    with q2 have "r1 / P = 0 \<or> pow2 (- 1022) \<le> r1 / P" by linarith
    from to_double_relative[OF this x'[folded P_def]]
    have e2: "\<bar>x - r1 / P\<bar> \<le> (r1 / P) * E" by (simp add: E_def)
    have e1': "\<bar>r1 / P - B\<bar> \<le> B * E"
    proof -
      have "\<bar>r1 / P - B\<bar> = \<bar>r1 - rat_of_int b\<bar> / P"
        using P(1) by (simp add: B_def P_def diff_divide_distrib[symmetric] del: diff_divide_distrib)
      also have "\<dots> \<le> (rat_of_int b * E) / P" using e1 P(1) by (simp add: divide_right_mono)
      also have "\<dots> = B * E" by (simp add: B_def P_def)
      finally show ?thesis .
    qed
    have "r1 / P \<le> 2 * B" using half(2) P(1) by (simp add: B_def P_def field_simps)
    then have "(r1 / P) * E \<le> (2 * B) * E" using E(1) by (simp only: mult_right_mono less_imp_le)
    with e2 e1' have "\<bar>x - B\<bar> \<le> 3 * (B * E)" by linarith
    then show ?thesis by (simp add: B_def E_def)
  qed
qed

subsection \<open>The shape of toFixed below \<open>10 ^ 21\<close>\<close>

lemma not_digit_point: "\<not> is_digit (CHR ''.'')" "\<not> is_digit (CHR ''-'')"
  by (simp_all add: is_digit_def)

lemma four_fraction_digits_plain:
  assumes "ip \<noteq> []" "list_all is_digit ip" "length fp = 4" "list_all is_digit fp"
  shows "four_fraction_digits (ip @ CHR ''.'' # fp)"
proof -
  obtain c cs where ip: "ip = c # cs" using assms(1) by (cases ip) auto
  then have "is_digit c" using assms(2) by simp
  then have c: "c \<noteq> CHR ''-''" using not_digit_point by auto
  have all: "\<And>x. x \<in> set ip \<Longrightarrow> is_digit x" using assms(2) by (simp add: list_all_iff)
  have t: "takeWhile is_digit (ip @ CHR ''.'' # fp) = ip"
    using all by (simp add: takeWhile_append2 not_digit_point)
  have d: "dropWhile is_digit (ip @ CHR ''.'' # fp) = CHR ''.'' # fp"
    using all by (simp add: dropWhile_append2 not_digit_point)
  have u: "(case ip @ CHR ''.'' # fp of [] \<Rightarrow> [] | c # cs \<Rightarrow> if c = CHR ''-'' then cs else c # cs)
             = ip @ CHR ''.'' # fp"
    using c by (simp add: ip)
  show ?thesis
    unfolding four_fraction_digits_def u Let_def t d using assms by simp
qed

lemma four_fraction_digits_minus:
  assumes "ip \<noteq> []" "list_all is_digit ip" "length fp = 4" "list_all is_digit fp"
  shows "four_fraction_digits (CHR ''-'' # ip @ CHR ''.'' # fp)"
proof -
  have all: "\<And>x. x \<in> set ip \<Longrightarrow> is_digit x" using assms(2) by (simp add: list_all_iff)
  have t: "takeWhile is_digit (ip @ CHR ''.'' # fp) = ip"
    using all by (simp add: takeWhile_append2 not_digit_point)
  have d: "dropWhile is_digit (ip @ CHR ''.'' # fp) = CHR ''.'' # fp"
    using all by (simp add: dropWhile_append2 not_digit_point)
  show ?thesis
    unfolding four_fraction_digits_def using assms by (simp add: t d)
qed

lemma point_before_last_shape:
  assumes "list_all is_digit m"
  shows "\<exists>ip fp. point_before_last 4 m = ip @ CHR ''.'' # fp \<and> ip \<noteq> [] \<and> list_all is_digit ip
            \<and> length fp = 4 \<and> list_all is_digit fp"
proof -
  define z where "z = replicate (4 + 1 - length m) (CHR ''0'') @ m"
  have z0: "is_digit (CHR ''0'')" by (simp add: is_digit_def)
  have zd: "list_all is_digit z" using assms z0 by (auto simp: z_def list_all_iff)
  have zl: "5 \<le> length z" by (simp add: z_def)
  have p: "point_before_last 4 m = take (length z - 4) z @ CHR ''.'' # drop (length z - 4) z"
    by (simp add: point_before_last_def z_def Let_def)
  have "take (length z - 4) z \<noteq> []" using zl by auto
  moreover have "list_all is_digit (take (length z - 4) z)"
    using zd by (auto simp: list_all_iff dest: in_set_takeD)
  moreover have "length (drop (length z - 4) z) = 4" using zl by simp
  moreover have "list_all is_digit (drop (length z - 4) z)"
    using zd by (auto simp: list_all_iff dest: in_set_dropD)
  ultimately show ?thesis using p by blast
qed

lemma toFixed_four_digits:
  assumes "\<bar>r\<bar> < 10 ^ 21"
  shows "four_fraction_digits (toFixed (Finite r) 4)"
proof -
  define m where "m = dec_nat (nat \<lfloor>\<bar>r\<bar> * 10 ^ 4 + 1 / 2\<rfloor>)"
  obtain ip fp where s: "point_before_last 4 m = ip @ CHR ''.'' # fp" "ip \<noteq> []" "list_all is_digit ip"
      "length fp = 4" "list_all is_digit fp"
    using point_before_last_shape[of m] dec_nat_digits by (auto simp: m_def)
  have t: "toFixed (Finite r) 4 = (if r < 0 then [CHR ''-''] else []) @ point_before_last 4 m"
    using assms by (simp add: toFixed_def Let_def m_def)
  show ?thesis
    unfolding t s(1)
    using four_fraction_digits_plain[OF s(2-5)] four_fraction_digits_minus[OF s(2-5)] by simp
qed

text \<open>
  The string that \<^verbatim>\<open>toFixed(4)\<close> returns below \<open>10 ^ 21\<close> denotes the multiple of
  \<open>10 ^ -4\<close> nearest to its argument.
\<close>

lemma digits_value_leading_zeros:
  "digits_value 10 0 (replicate j (CHR ''0'') @ m) = digits_value 10 0 m"
  by (induction j) (simp_all add: digit_of_def)

lemma decimal_value_point:
  assumes dg: "list_all is_digit m" and ne: "m \<noteq> []" and v: "digits_value 10 0 m = Some n"
  shows "decimal_value (point_before_last 4 m) = Some (of_nat n / 10 ^ 4)"
proof -
  define z where "z = replicate (4 + 1 - length m) (CHR ''0'') @ m"
  define ip where "ip = take (length z - 4) z"
  define fp where "fp = drop (length z - 4) z"
  have z0: "is_digit (CHR ''0'')" by (simp add: is_digit_def)
  have zd: "list_all is_digit z" using dg z0 by (auto simp: z_def list_all_iff)
  have zl: "5 \<le> length z" by (simp add: z_def)
  have zne: "z \<noteq> []" using ne by (simp add: z_def)
  have p: "point_before_last 4 m = ip @ CHR ''.'' # fp"
    by (simp add: point_before_last_def z_def ip_def fp_def Let_def)
  have ipd: "\<And>c. c \<in> set ip \<Longrightarrow> c \<noteq> CHR ''.''"
    using zd not_digit_point(1) by (auto simp: ip_def list_all_iff dest: in_set_takeD)
  have t: "takeWhile (\<lambda>c. c \<noteq> CHR ''.'') (ip @ CHR ''.'' # fp) = ip"
    using ipd by (simp add: takeWhile_append2)
  have dr: "dropWhile (\<lambda>c. c \<noteq> CHR ''.'') (ip @ CHR ''.'' # fp) = CHR ''.'' # fp"
    using ipd by (simp add: dropWhile_append2)
  have whole: "ip @ fp = z" by (simp add: ip_def fp_def)
  have fl: "length fp = 4" using zl by (simp add: fp_def)
  have "parse_digits 10 z = Some n"
    using v zne by (simp add: parse_digits_def z_def digits_value_leading_zeros)
  then show ?thesis
    unfolding p decimal_value_def Let_def t dr by (simp add: whole fl)
qed

lemma toFixed_value:
  assumes "0 \<le> x" and "x < 10 ^ 21"
  shows "\<exists>v. decimal_value (toFixed (Finite x) 4) = Some v \<and> \<bar>v - x\<bar> \<le> 1 / 20000"
proof -
  define k where "k = \<lfloor>x * 10 ^ 4 + 1 / 2\<rfloor>"
  define n where "n = nat k"
  have k0: "0 \<le> k" unfolding k_def using assms(1) by simp
  have nk: "(of_nat n :: rat) = of_int k" using k0 by (simp add: n_def)
  have lo: "of_int k \<le> x * 10 ^ 4 + 1 / 2" unfolding k_def by (rule of_int_floor_le)
  have hi: "x * 10 ^ 4 + 1 / 2 < of_int k + 1" unfolding k_def by linarith
  have t: "toFixed (Finite x) 4 = point_before_last 4 (dec_nat n)"
    using assms by (simp add: toFixed_def Let_def n_def k_def)
  have d: "decimal_value (point_before_last 4 (dec_nat n)) = Some (of_nat n / 10 ^ 4)"
    by (rule decimal_value_point[OF dec_nat_digits dec_nat_nonempty digits_value_dec_nat])
  have "\<bar>of_int k - x * 10 ^ 4\<bar> \<le> 1 / 2" using lo hi by linarith
  then have "\<bar>of_int k - x * 10 ^ 4\<bar> / 10 ^ 4 \<le> (1 / 2) / 10 ^ 4"
    by (rule divide_right_mono) simp
  moreover have "\<bar>of_int k - x * 10 ^ 4\<bar> / 10 ^ 4 = \<bar>of_int k / 10 ^ 4 - x\<bar>"
  proof -
    have "of_int k / 10 ^ 4 - x = (of_int k - x * 10 ^ 4) / 10 ^ 4" by (simp add: field_simps)
    then show ?thesis by (simp only: abs_divide) simp
  qed
  ultimately have "\<bar>of_nat n / 10 ^ 4 - x\<bar> \<le> 1 / 20000" by (simp add: nk)
  with t d show ?thesis by (intro exI[of _ "of_nat n / 10 ^ 4"]) (simp only: simp_thms)
qed

subsection \<open>Evaluation on numerals\<close>

lemma floor_rat_numeral: "\<lfloor>(numeral a :: rat) / numeral b\<rfloor> = numeral a div numeral b"
  using floor_divide_of_int_eq[of "numeral a" "numeral b", where ?'a = rat] by simp

lemma dec_nat_numeral:
  "dec_nat (numeral k) =
     (if numeral k < (10::nat) then [digit_char (numeral k)]
      else dec_nat (numeral k div 10) @ [digit_char (numeral k mod 10)])"
  by (rule dec_nat.simps)

lemma dec_nat_small: "dec_nat 0 = ''0''" "dec_nat 1 = ''1''" "dec_nat (Suc 0) = ''1''"
  by (simp_all add: dec_nat.simps digit_char_def char_of_def bit_Suc_0_iff)

lemma ilog2_numeral:
  "ilog2 (numeral k) = (if numeral k < (2::nat) then 0 else ilog2 (numeral k div 2) + 1)"
  by (rule ilog2.simps)

lemma ilog2_small: "ilog2 0 = 0" "ilog2 1 = 0" "ilog2 (Suc 0) = 0"
  by (simp_all add: ilog2.simps)

lemma digit_count_numeral:
  "digit_count (numeral k) = (if numeral k < (10::nat) then 1 else digit_count (numeral k div 10) + 1)"
  by (rule digit_count.simps)

lemma digit_count_small: "digit_count 0 = 1" "digit_count 1 = 1" "digit_count (Suc 0) = 1"
  by (simp_all add: digit_count.simps)


lemma replicate_numeral_eval: "replicate (numeral k) x = x # replicate (pred_numeral k) x"
  by (simp add: numeral_eq_Suc)

lemmas eval_simps = replicate_numeral_eval StringToBigInt_def trim_def is_ws_def parse_digits_def digit_of_def
  BigInt_def index0_def BigInt_toString_def dec_nat_numeral dec_nat_small digit_char_def char_of_def
  bit_Suc_0_iff floor_rat_numeral
  Number_def to_double_def round_pos_def floor_log2_def ilog2_numeral ilog2_small pow2_def
  round_half_even_def
  Let_def pow10_def dneg_def toFixed_def point_before_last_def ToString_large_def pick_digits_def
  digit_candidates_def exponent_notation_def

text \<open>
  Two corners of the built-ins: a double just below a power of ten prints as that power,
  and the no-break space is white space for \<^verbatim>\<open>BigInt\<close>.
\<close>

lemma power_of_ten_rounding:
  "to_double (of_nat (10 ^ 23)) = Finite 99999999999999991611392"
  "toFixed (Finite 99999999999999991611392) 4 = ''1e+23''"
  "toFixed (Finite (10 ^ 21)) 4 = ''1e+21''"
proof -
  show a: "to_double (of_nat (10 ^ 23)) = Finite 99999999999999991611392"
    by (simp add: eval_simps)
  have n: "digit_count 99999999999999991611392 = 23" "digit_count 1000000000000000000000 = 22"
    by (simp_all add: digit_count_numeral digit_count_small)
  have b: "to_double (of_nat (10 ^ 22)) \<noteq> Finite (10 ^ 21)"
    by (simp add: eval_simps)
  show "toFixed (Finite 99999999999999991611392) 4 = ''1e+23''"
    using a by (simp add: toFixed_def ToString_large_def n exponent_notation_def Let_def
        dec_nat_numeral digit_char_def char_of_def bit_Suc_0_iff)
  show "toFixed (Finite (10 ^ 21)) 4 = ''1e+21''"
    using b by (simp add: eval_simps n)
qed

lemma no_break_space_trimmed: "BigInt (Some [CHR 0xA0, CHR ''5'', CHR 0x20]) = Inr 5"
  by (simp add: eval_simps)

section \<open>The wallet session service\<close>

subsection \<open>Token balances\<close>

lemma getTokenBalance_result:
  assumes "account wallet = Some acct"
    and "callContract acct (balanceOf_call tokenAddress a) (world s) = (read, w')"
  shows "fst (getTokenBalance env wallet a tokenAddress s) = expected_balance env tokenAddress read"
    and "world (snd (getTokenBalance env wallet a tokenAddress s)) = w'"
  using assms
  by (auto simp: getTokenBalance_def getTokenBalance_try_def call_env_def emit_def expected_balance_def
      Let_def split: sum.splits prod.splits)

lemma example_reads:
  "readableBalance example_env ''0xETH'' [''1000000000000000000''] = Inr ''1.0000''"
  "readableBalance example_env ''0xSTRK'' [''3000000000000000000''] = Inr ''3.0000''"
  by (simp_all add: readableBalance_def tokenDecimals_def example_env_def eval_simps)

lemma example_balances:
  "getTokenBalances example_env ''0x123'' start =
     (Inr [''ETH'' \<mapsto> ''1.0000'', ''USDC'' \<mapsto> ''0'', ''STRK'' \<mapsto> ''3.0000''],
      \<lparr>world = (),
       trace = [Connect None,
                CallContract (balanceOf_call ''0xETH'' ''0x123''),
                ConsoleLog [LogStr ''Balance for token 0xETH:'', LogStr ''1.0000''],
                CallContract (balanceOf_call ''0xUSDC'' ''0x123''),
                ConsoleError [LogStr ''Error fetching balance for token 0xUSDC:'',
                              LogErr (Error ''Contract call failed'')],
                CallContract (balanceOf_call ''0xSTRK'' ''0x123''),
                ConsoleLog [LogStr ''Balance for token 0xSTRK:'', LogStr ''3.0000'']]\<rparr>)"
proof -
  have e: "ETH_ADDRESS example_env = ''0xETH''" "USDC_ADDRESS example_env = ''0xUSDC''"
    "STRK_ADDRESS example_env = ''0xSTRK''"
    "connect example_env None () = (Inr (Connection (Some example_wallet)), ())"
    by (simp_all add: example_env_def connect_to_def)
  show ?thesis
    by (simp add: getTokenBalances_def getTokenBalances_try_def getTokenBalance_def
        getTokenBalance_try_def call_env_def emit_def e example_wallet_def example_account_def
        balanceOf_call_def example_reads start_def)
qed

text \<open>
  Claim C2. For every wallet address, if connecting the wallet succeeds (the connector
  returns a wallet), \<^verbatim>\<open>getTokenBalances\<close> returns a result: it never rejects because the
  \<^verbatim>\<open>balanceOf\<close> read of a token fails. Whatever the outcomes of the three reads, a token
  whose read fails is reported as \<^verbatim>\<open>'0'\<close> and each token whose read succeeds keeps its
  formatted value. The call rejects only when the connection itself fails: the
  connector rejects or returns no wallet.
\<close>

theorem getTokenBalances_partial_failure:
  "(connect env None (world s) = (Inr (Connection (Some wallet)), w1) \<longrightarrow>
      (\<exists>m s'. getTokenBalances env a s = (Inr m, s') \<and>
         (\<forall>acct rE w2 rU w3 rS w4.
             account wallet = Some acct \<and>
             callContract acct (balanceOf_call (ETH_ADDRESS env) a) w1 = (rE, w2) \<and>
             callContract acct (balanceOf_call (USDC_ADDRESS env) a) w2 = (rU, w3) \<and>
             callContract acct (balanceOf_call (STRK_ADDRESS env) a) w3 = (rS, w4) \<longrightarrow>
             m = [''ETH'' \<mapsto> expected_balance env (ETH_ADDRESS env) rE,
                  ''USDC'' \<mapsto> expected_balance env (USDC_ADDRESS env) rU,
                  ''STRK'' \<mapsto> expected_balance env (STRK_ADDRESS env) rS]))) \<and>
   (\<forall>e s'. getTokenBalances env a s = (Inl e, s') \<longrightarrow>
      (\<forall>wallet w. connect env None (world s) \<noteq> (Inr (Connection (Some wallet)), w)))"
proof (intro conjI impI allI)
  assume c: "connect env None (world s) = (Inr (Connection (Some wallet)), w1)"
  define s1 where "s1 = \<lparr>world = w1, trace = trace s @ [Connect None]\<rparr>"
  obtain eth s2 where e: "getTokenBalance env wallet a (ETH_ADDRESS env) s1 = (eth, s2)" by force
  obtain usdc s3 where u: "getTokenBalance env wallet a (USDC_ADDRESS env) s2 = (usdc, s3)" by force
  obtain strk s4 where k: "getTokenBalance env wallet a (STRK_ADDRESS env) s3 = (strk, s4)" by force
  have r: "getTokenBalances env a s = (Inr [''ETH'' \<mapsto> eth, ''USDC'' \<mapsto> usdc, ''STRK'' \<mapsto> strk], s4)"
    using c e u k by (simp add: getTokenBalances_def getTokenBalances_try_def call_env_def s1_def)
  have "\<forall>acct rE w2 rU w3 rS w4.
             account wallet = Some acct \<and>
             callContract acct (balanceOf_call (ETH_ADDRESS env) a) w1 = (rE, w2) \<and>
             callContract acct (balanceOf_call (USDC_ADDRESS env) a) w2 = (rU, w3) \<and>
             callContract acct (balanceOf_call (STRK_ADDRESS env) a) w3 = (rS, w4) \<longrightarrow>
             [''ETH'' \<mapsto> eth, ''USDC'' \<mapsto> usdc, ''STRK'' \<mapsto> strk] =
                 [''ETH'' \<mapsto> expected_balance env (ETH_ADDRESS env) rE,
                  ''USDC'' \<mapsto> expected_balance env (USDC_ADDRESS env) rU,
                  ''STRK'' \<mapsto> expected_balance env (STRK_ADDRESS env) rS]"
  proof (intro allI impI, elim conjE)
    fix acct rE w2 rU w3 rS w4
    assume acct: "account wallet = Some acct"
      and cE: "callContract acct (balanceOf_call (ETH_ADDRESS env) a) w1 = (rE, w2)"
      and cU: "callContract acct (balanceOf_call (USDC_ADDRESS env) a) w2 = (rU, w3)"
      and cS: "callContract acct (balanceOf_call (STRK_ADDRESS env) a) w3 = (rS, w4)"
    have w1: "world s1 = w1" by (simp add: s1_def)
    have "eth = expected_balance env (ETH_ADDRESS env) rE" "world s2 = w2"
      using getTokenBalance_result[OF acct, of "ETH_ADDRESS env" a s1 rE w2 env] cE w1 e by simp_all
    moreover from this have "usdc = expected_balance env (USDC_ADDRESS env) rU" "world s3 = w3"
      using getTokenBalance_result[OF acct, of "USDC_ADDRESS env" a s2 rU w3 env] cU u by simp_all
    moreover from this have "strk = expected_balance env (STRK_ADDRESS env) rS"
      using getTokenBalance_result[OF acct, of "STRK_ADDRESS env" a s3 rS w4 env] cS k by simp_all
    ultimately show "[''ETH'' \<mapsto> eth, ''USDC'' \<mapsto> usdc, ''STRK'' \<mapsto> strk] =
                 [''ETH'' \<mapsto> expected_balance env (ETH_ADDRESS env) rE,
                  ''USDC'' \<mapsto> expected_balance env (USDC_ADDRESS env) rU,
                  ''STRK'' \<mapsto> expected_balance env (STRK_ADDRESS env) rS]" by simp
  qed
  with r show "\<exists>m s'. getTokenBalances env a s = (Inr m, s') \<and>
         (\<forall>acct rE w2 rU w3 rS w4.
             account wallet = Some acct \<and>
             callContract acct (balanceOf_call (ETH_ADDRESS env) a) w1 = (rE, w2) \<and>
             callContract acct (balanceOf_call (USDC_ADDRESS env) a) w2 = (rU, w3) \<and>
             callContract acct (balanceOf_call (STRK_ADDRESS env) a) w3 = (rS, w4) \<longrightarrow>
             m = [''ETH'' \<mapsto> expected_balance env (ETH_ADDRESS env) rE,
                  ''USDC'' \<mapsto> expected_balance env (USDC_ADDRESS env) rU,
                  ''STRK'' \<mapsto> expected_balance env (STRK_ADDRESS env) rS])" by blast
next
  fix e s' wallet w
  assume "getTokenBalances env a s = (Inl e, s')"
  then show "connect env None (world s) \<noteq> (Inr (Connection (Some wallet)), w)"
    by (auto simp: getTokenBalances_def getTokenBalances_try_def call_env_def
        split: prod.splits sum.splits)
qed

text \<open>
  One ETH, a rejected USDC read and three STRK give \<^verbatim>\<open>1.0000\<close>, \<^verbatim>\<open>0\<close> and \<^verbatim>\<open>3.0000\<close>; a
  connector without a wallet makes the call reject.
\<close>

theorem getTokenBalances_partial_failure_witness:
  "connect example_env None (world start) = (Inr (Connection (Some example_wallet)), ()) \<and>
   account example_wallet = Some example_account \<and>
   callContract example_account (balanceOf_call (ETH_ADDRESS example_env) ''0x123'') () =
     (Inr [''1000000000000000000''], ()) \<and>
   callContract example_account (balanceOf_call (USDC_ADDRESS example_env) ''0x123'') () =
     (Inl (Error ''Contract call failed''), ()) \<and>
   callContract example_account (balanceOf_call (STRK_ADDRESS example_env) ''0x123'') () =
     (Inr [''3000000000000000000''], ()) \<and>
   fst (getTokenBalances example_env ''0x123'' start) =
     Inr [''ETH'' \<mapsto> ''1.0000'', ''USDC'' \<mapsto> ''0'', ''STRK'' \<mapsto> ''3.0000''] \<and>
   getTokenBalances (env_with None) ''0x123'' start =
     (Inl (Error ''Wallet not connected''),
      \<lparr>world = (),
       trace = [Connect None,
                ConsoleError [LogStr ''Error fetching token balances:'',
                              LogErr (Error ''Wallet not connected'')]]\<rparr>) \<and>
   connect (env_with None) None (world start) \<noteq> (Inr (Connection (Some example_wallet)), ())"
proof -
  have h: "connect example_env None (world start) = (Inr (Connection (Some example_wallet)), ())"
    by (simp add: example_env_def connect_to_def)
  have reads: "account example_wallet = Some example_account \<and>
     callContract example_account (balanceOf_call (ETH_ADDRESS example_env) ''0x123'') () =
       (Inr [''1000000000000000000''], ()) \<and>
     callContract example_account (balanceOf_call (USDC_ADDRESS example_env) ''0x123'') () =
       (Inl (Error ''Contract call failed''), ()) \<and>
     callContract example_account (balanceOf_call (STRK_ADDRESS example_env) ''0x123'') () =
       (Inr [''3000000000000000000''], ())"
    by (simp add: example_wallet_def example_account_def example_env_def balanceOf_call_def)
  have expected:
    "expected_balance example_env (ETH_ADDRESS example_env) (Inr [''1000000000000000000'']) = ''1.0000''"
    "expected_balance example_env (USDC_ADDRESS example_env) (Inl (Error ''Contract call failed'')) = ''0''"
    "expected_balance example_env (STRK_ADDRESS example_env) (Inr [''3000000000000000000'']) = ''3.0000''"
    using example_reads by (simp_all add: expected_balance_def example_env_def)
  from getTokenBalances_partial_failure[of example_env start example_wallet "()" "''0x123''"] h
  obtain m s' where m: "getTokenBalances example_env ''0x123'' start = (Inr m, s')"
    and all: "\<forall>acct rE w2 rU w3 rS w4.
             account example_wallet = Some acct \<and>
             callContract acct (balanceOf_call (ETH_ADDRESS example_env) ''0x123'') () = (rE, w2) \<and>
             callContract acct (balanceOf_call (USDC_ADDRESS example_env) ''0x123'') w2 = (rU, w3) \<and>
             callContract acct (balanceOf_call (STRK_ADDRESS example_env) ''0x123'') w3 = (rS, w4) \<longrightarrow>
             m = [''ETH'' \<mapsto> expected_balance example_env (ETH_ADDRESS example_env) rE,
                  ''USDC'' \<mapsto> expected_balance example_env (USDC_ADDRESS example_env) rU,
                  ''STRK'' \<mapsto> expected_balance example_env (STRK_ADDRESS example_env) rS]"
    by blast
  from all reads have "m = [''ETH'' \<mapsto> expected_balance example_env (ETH_ADDRESS example_env) (Inr [''1000000000000000000'']),
                  ''USDC'' \<mapsto> expected_balance example_env (USDC_ADDRESS example_env) (Inl (Error ''Contract call failed'')),
                  ''STRK'' \<mapsto> expected_balance example_env (STRK_ADDRESS example_env) (Inr [''3000000000000000000''])]"
    by blast
  then have ok: "fst (getTokenBalances example_env ''0x123'' start) =
     Inr [''ETH'' \<mapsto> ''1.0000'', ''USDC'' \<mapsto> ''0'', ''STRK'' \<mapsto> ''3.0000'']"
    using m by (simp add: expected)
  have rejected: "getTokenBalances (env_with None) ''0x123'' start =
     (Inl (Error ''Wallet not connected''),
      \<lparr>world = (),
       trace = [Connect None,
                ConsoleError [LogStr ''Error fetching token balances:'',
                              LogErr (Error ''Wallet not connected'')]]\<rparr>)"
    by (simp add: getTokenBalances_def getTokenBalances_try_def call_env_def emit_def env_with_def
        example_env_def connect_to_def start_def)
  from getTokenBalances_partial_failure[of "env_with None" start example_wallet "()" "''0x123''"] rejected
  have "connect (env_with None) None (world start) \<noteq> (Inr (Connection (Some example_wallet)), ())"
    by blast
  with h reads ok rejected show ?thesis by simp
qed

text \<open>
  Claim C3, as amended. The conversion from base units uses 6 decimals when the token
  address is the USDC address and 18 otherwise: for every non-negative balance whose
  converted value \<^verbatim>\<open>Number(balance) / 10 ** decimals\<close> is below \<open>10 ^ 21\<close>, the balance
  string produced by the formatting step has exactly four fractional digits and denotes
  \<open>balance / 10 ^ decimals\<close> with these decimals, rounded to four places, up to the
  rounding of the two double operations (a relative error of at most \<open>3 * 2 ^ -53\<close>).
  This holds in particular for every balance \<open>b\<close> with \<open>4 * b < 10 ^ (21 + decimals)\<close>.
\<close>

theorem readableBalance_format:
  "tokenDecimals env tokenAddress = (if tokenAddress = USDC_ADDRESS env then 6 else 18) \<and>
   (\<forall>b x. BigInt (index0 response) = Inr b \<and> 0 \<le> b \<and>
          ddiv (Number (BigInt_toString b)) (pow10 (tokenDecimals env tokenAddress)) = Finite x \<and>
          x < 10 ^ 21 \<longrightarrow>
      (\<exists>r v. readableBalance env tokenAddress response = Inr r \<and> four_fraction_digits r \<and>
             decimal_value r = Some v \<and>
             \<bar>v - of_int b / 10 ^ (if tokenAddress = USDC_ADDRESS env then 6 else 18)\<bar>
               \<le> 1 / 20000 +
                  3 * (of_int b / 10 ^ (if tokenAddress = USDC_ADDRESS env then 6 else 18)) / 2 ^ 53)) \<and>
   (\<forall>b. BigInt (index0 response) = Inr b \<and> 0 \<le> b \<and>
        4 * b < 10 ^ (21 + tokenDecimals env tokenAddress) \<longrightarrow>
      (\<exists>r v. readableBalance env tokenAddress response = Inr r \<and> four_fraction_digits r \<and>
             decimal_value r = Some v \<and>
             \<bar>v - of_int b / 10 ^ (if tokenAddress = USDC_ADDRESS env then 6 else 18)\<bar>
               \<le> 1 / 20000 +
                  3 * (of_int b / 10 ^ (if tokenAddress = USDC_ADDRESS env then 6 else 18)) / 2 ^ 53))"
proof -
  define d where "d = tokenDecimals env tokenAddress"
  have d: "d = (if tokenAddress = USDC_ADDRESS env then 6 else 18)" "d \<le> 18"
    by (simp_all add: d_def tokenDecimals_def)
  have main: "\<exists>r v. readableBalance env tokenAddress response = Inr r \<and> four_fraction_digits r \<and>
             decimal_value r = Some v \<and>
             \<bar>v - of_int b / 10 ^ d\<bar> \<le> 1 / 20000 + 3 * (of_int b / 10 ^ d) / 2 ^ 53"
    if h: "BigInt (index0 response) = Inr b" "0 \<le> b"
      "ddiv (Number (BigInt_toString b)) (pow10 d) = Finite x" "x < 10 ^ 21" for b x
  proof -
    have x0: "0 \<le> x" using quotient_nonneg[OF h(2) h(3)] .
    then have ax: "\<bar>x\<bar> < 10 ^ 21" using h(4) by simp
    have r: "readableBalance env tokenAddress response = Inr (toFixed (Finite x) 4)"
      using h(1) h(3) by (simp add: readableBalance_def Let_def d_def)
    obtain v where v: "decimal_value (toFixed (Finite x) 4) = Some v" "\<bar>v - x\<bar> \<le> 1 / 20000"
      using toFixed_value[OF x0 h(4)] by blast
    have "\<bar>x - of_int b / 10 ^ d\<bar> \<le> 3 * (of_int b / 10 ^ d) / 2 ^ 53"
      by (rule quotient_accuracy[OF h(2) d(2) h(3)])
    with v(2) have "\<bar>v - of_int b / 10 ^ d\<bar> \<le> 1 / 20000 + 3 * (of_int b / 10 ^ d) / 2 ^ 53"
      by linarith
    with r v(1) toFixed_four_digits[OF ax] show ?thesis by blast
  qed
  have below: "\<exists>x. ddiv (Number (BigInt_toString b)) (pow10 d) = Finite x \<and> x < 10 ^ 21"
    if "0 \<le> b" "4 * b < 10 ^ (21 + d)" for b
    using quotient_below[OF that d(2)] by blast
  show ?thesis
    unfolding d_def[symmetric] d(1)[symmetric]
    using main below by (intro conjI allI impI) (simp add: d(1), blast, blast)
qed

text \<open>
  Two USDC in base units are formatted as \<^verbatim>\<open>2.0000\<close> and one ETH as \<^verbatim>\<open>1.0000\<close>; the
  strings denote 2 and 1.
\<close>

theorem readableBalance_format_witness:
  "tokenDecimals example_env (USDC_ADDRESS example_env) = 6 \<and>
   tokenDecimals example_env (ETH_ADDRESS example_env) = 18 \<and>
   BigInt (index0 [''2000000'']) = Inr 2000000 \<and>
   ddiv (Number (BigInt_toString 2000000)) (pow10 (tokenDecimals example_env ''0xUSDC'')) = Finite 2 \<and>
   (4::int) * 2000000 < 10 ^ (21 + tokenDecimals example_env ''0xUSDC'') \<and>
   readableBalance example_env ''0xUSDC'' [''2000000''] = Inr ''2.0000'' \<and>
   four_fraction_digits ''2.0000'' \<and>
   decimal_value ''2.0000'' = Some 2 \<and>
   \<bar>(2::rat) - of_int 2000000 / 10 ^ 6\<bar> \<le> 1 / 20000 + 3 * (of_int 2000000 / 10 ^ 6) / 2 ^ 53 \<and>
   BigInt (index0 [''1000000000000000000'']) = Inr 1000000000000000000 \<and>
   ddiv (Number (BigInt_toString 1000000000000000000)) (pow10 (tokenDecimals example_env ''0xETH'')) = Finite 1 \<and>
   (4::int) * 1000000000000000000 < 10 ^ (21 + tokenDecimals example_env ''0xETH'') \<and>
   readableBalance example_env ''0xETH'' [''1000000000000000000''] = Inr ''1.0000'' \<and>
   four_fraction_digits ''1.0000'' \<and>
   decimal_value ''1.0000'' = Some 1"
proof -
  have d: "tokenDecimals example_env ''0xETH'' = 18" "tokenDecimals example_env ''0xUSDC'' = 6"
    "ETH_ADDRESS example_env = ''0xETH''" "USDC_ADDRESS example_env = ''0xUSDC''"
    by (simp_all add: tokenDecimals_def example_env_def)
  have bu: "BigInt (index0 [''2000000'']) = Inr 2000000"
    and be: "BigInt (index0 [''1000000000000000000'']) = Inr 1000000000000000000"
    by (simp_all add: eval_simps)
  have qu: "ddiv (Number (BigInt_toString 2000000)) (pow10 (tokenDecimals example_env ''0xUSDC'')) = Finite 2"
    unfolding d by (simp add: eval_simps)
  have qe: "ddiv (Number (BigInt_toString 1000000000000000000)) (pow10 (tokenDecimals example_env ''0xETH'')) = Finite 1"
    unfolding d by (simp add: eval_simps)
  have su: "(4::int) * 2000000 < 10 ^ (21 + tokenDecimals example_env ''0xUSDC'')"
    and se: "(4::int) * 1000000000000000000 < 10 ^ (21 + tokenDecimals example_env ''0xETH'')"
    unfolding d by simp_all
  have ru: "readableBalance example_env ''0xUSDC'' [''2000000''] = Inr ''2.0000''"
    by (simp add: readableBalance_def d eval_simps)
  have re: "readableBalance example_env ''0xETH'' [''1000000000000000000''] = Inr ''1.0000''"
    by (rule example_reads)
  have dv: "decimal_value ''2.0000'' = Some 2" "decimal_value ''1.0000'' = Some 1"
    by (simp_all add: decimal_value_def parse_digits_def digit_of_def)
  have side: "(0::int) \<le> 2000000" "(0::int) \<le> 1000000000000000000" "(2::rat) < 10 ^ 21"
    "(1::rat) < 10 ^ 21" by simp_all
  note tu = readableBalance_format[of example_env "''0xUSDC''" "[''2000000'']"]
  note te = readableBalance_format[of example_env "''0xETH''" "[''1000000000000000000'']"]
  from tu have du: "tokenDecimals example_env ''0xUSDC'' = (if ''0xUSDC'' = USDC_ADDRESS example_env then 6 else 18)"
    by blast
  from te have de: "tokenDecimals example_env ''0xETH'' = (if ''0xETH'' = USDC_ADDRESS example_env then 6 else 18)"
    by blast
  from tu bu qu side obtain r v where
    u: "readableBalance example_env ''0xUSDC'' [''2000000''] = Inr r" "four_fraction_digits r"
       "decimal_value r = Some v"
       "\<bar>v - of_int 2000000 / 10 ^ (if ''0xUSDC'' = USDC_ADDRESS example_env then 6 else 18)\<bar>
          \<le> 1 / 20000 +
             3 * (of_int 2000000 / 10 ^ (if ''0xUSDC'' = USDC_ADDRESS example_env then 6 else 18)) / 2 ^ 53"
    by blast
  from u ru dv(1) have r2: "r = ''2.0000''" "v = 2" by simp_all
  from te be se side obtain r' v' where
    e: "readableBalance example_env ''0xETH'' [''1000000000000000000''] = Inr r'" "four_fraction_digits r'"
       "decimal_value r' = Some v'"
    by blast
  from e re have r1: "r' = ''1.0000''" by simp
  have fu: "four_fraction_digits ''2.0000''" using u(2) r2(1) by simp
  have fe: "four_fraction_digits ''1.0000''" using e(2) r1 by simp
  have acc: "\<bar>(2::rat) - of_int 2000000 / 10 ^ 6\<bar> \<le> 1 / 20000 + 3 * (of_int 2000000 / 10 ^ 6) / 2 ^ 53"
    using u(4) r2(2) d(4) by simp
  from du de d bu qu su ru fu dv acc be qe se re fe show ?thesis by simp
qed

text \<open>
  Claim C3 as stated fails for large balances: from \<open>10 ^ 21\<close> on, \<^verbatim>\<open>toFixed\<close> returns the
  exponent notation of the number. A USDC balance of \<open>2 ^ 70 * 10 ^ 6\<close> base units, which
  fits the low 128-bit word of a balance, is formatted as \<^verbatim>\<open>1.1805916207174113e+21\<close>.
\<close>

theorem readableBalance_large_counterexample:
  "tokenDecimals example_env (USDC_ADDRESS example_env) = 6 \<and>
   BigInt (index0 [''1180591620717411303424000000'']) = Inr 1180591620717411303424000000 \<and>
   ddiv (Number (BigInt_toString 1180591620717411303424000000)) (pow10 6) =
     Finite 1180591620717411303424 \<and>
   readableBalance example_env (USDC_ADDRESS example_env) [''1180591620717411303424000000''] =
     Inr ''1.1805916207174113e+21'' \<and>
   \<not> four_fraction_digits ''1.1805916207174113e+21'' \<and>
   fst (getTokenBalances (env_with (Some whale_wallet)) ''0x123'' start) =
     Inr [''ETH'' \<mapsto> ''0.0000'', ''USDC'' \<mapsto> ''1.1805916207174113e+21'', ''STRK'' \<mapsto> ''0.0000'']"
proof -
  have n: "digit_count 1180591620717411303424 = 22"
    by (simp add: digit_count_numeral digit_count_small)
  have b: "BigInt (index0 [''1180591620717411303424000000'']) = Inr 1180591620717411303424000000"
    by (simp add: eval_simps)
  have q: "ddiv (Number (BigInt_toString 1180591620717411303424000000)) (pow10 6) =
      Finite 1180591620717411303424"
    by (simp add: eval_simps)
  have f: "toFixed (Finite 1180591620717411303424) 4 = ''1.1805916207174113e+21''"
    by (simp add: eval_simps n)
  have d: "tokenDecimals example_env (USDC_ADDRESS example_env) = 6"
    by (simp add: tokenDecimals_def)
  have r: "readableBalance example_env (USDC_ADDRESS example_env) [''1180591620717411303424000000''] =
     Inr ''1.1805916207174113e+21''"
    by (simp add: readableBalance_def b d q f)
  have x: "\<not> four_fraction_digits ''1.1805916207174113e+21''"
    by (simp add: four_fraction_digits_def is_digit_def)
  have z: "readableBalance example_env ''0xETH'' [''0''] = Inr ''0.0000''"
    "readableBalance example_env ''0xSTRK'' [''0''] = Inr ''0.0000''"
    by (simp_all add: readableBalance_def tokenDecimals_def example_env_def eval_simps)
  have e: "ETH_ADDRESS (env_with (Some whale_wallet)) = ''0xETH''"
    "USDC_ADDRESS (env_with (Some whale_wallet)) = ''0xUSDC''"
    "STRK_ADDRESS (env_with (Some whale_wallet)) = ''0xSTRK''"
    "USDC_ADDRESS example_env = ''0xUSDC''"
    "connect (env_with (Some whale_wallet)) None () = (Inr (Connection (Some whale_wallet)), ())"
    by (simp_all add: env_with_def example_env_def connect_to_def)
  have t: "\<And>t. tokenDecimals (env_with (Some whale_wallet)) t = tokenDecimals example_env t"
    by (simp add: tokenDecimals_def env_with_def)
  have same: "\<And>t rs. readableBalance (env_with (Some whale_wallet)) t rs = readableBalance example_env t rs"
    by (simp only: readableBalance_def t)
  have a: "account whale_wallet = Some (example_account\<lparr>callContract := (\<lambda>rq w.
       (if contractAddress rq = ''0xUSDC'' then Inr [''1180591620717411303424000000'']
        else Inr [''0''], w))\<rparr>)"
    by (simp add: whale_wallet_def)
  have run: "fst (getTokenBalances (env_with (Some whale_wallet)) ''0x123'' start) =
     Inr [''ETH'' \<mapsto> ''0.0000'', ''USDC'' \<mapsto> ''1.1805916207174113e+21'', ''STRK'' \<mapsto> ''0.0000'']"
    using r
    by (simp add: getTokenBalances_def getTokenBalances_try_def getTokenBalance_def
        getTokenBalance_try_def call_env_def emit_def e same a balanceOf_call_def z start_def)
  from d b q r x run show ?thesis by simp
qed

subsection \<open>The CRM token gate\<close>

lemma checkForCRMToken_resolved:
  assumes "REACT_APP_IS_DEV env \<noteq> Some ''true''"
    and "connect env None (world s) = (Inr (Connection (Some wallet)), w1)"
    and "account wallet = Some acct"
    and "callContract acct (balanceOf_call CRM_TOKEN_ADDRESS a) w1 = (Inr response, w2)"
    and "BigInt (index0 response) = Inr b"
  shows "checkForCRMToken env a s =
     (if 0 < b then
        (Inr True, \<lparr>world = w2, trace = trace s @ [Connect None, CallContract (balanceOf_call CRM_TOKEN_ADDRESS a)]\<rparr>)
      else
        (Inr False,
         \<lparr>world = w2,
          trace = trace s @ [Connect None, CallContract (balanceOf_call CRM_TOKEN_ADDRESS a),
                   Alert ''Beta testing is allowed only for users who hold the CRM token.'']\<rparr>))"
  using assms
  by (simp add: checkForCRMToken_def checkForCRMToken_try_def call_env_def emit_def Let_def
      Number_positive_iff)

lemma zero_words: "BigInt (Some ''0x0'') = Inr 0" "BigInt (Some ''0'') = Inr 0" "BigInt (Some ''5'') = Inr 5"
  by (simp_all add: eval_simps)

text \<open>
  Claim C4. For every wallet address, when the development flag is unset, the wallet
  connects and \<^verbatim>\<open>balanceOf\<close> resolves to a balance, \<^verbatim>\<open>checkForCRMToken\<close> returns false with
  exactly one alert precisely when the balance is zero, and returns true with no alert
  when the balance is greater than zero.
\<close>

theorem checkForCRMToken_balance:
  "REACT_APP_IS_DEV env \<noteq> Some ''true'' \<and>
   connect env None (world s) = (Inr (Connection (Some wallet)), w1) \<and>
   account wallet = Some acct \<and>
   callContract acct (balanceOf_call CRM_TOKEN_ADDRESS a) w1 = (Inr response, w2) \<and>
   BigInt (index0 response) = Inr b \<and> 0 \<le> b \<longrightarrow>
     checkForCRMToken env a s =
       (if b = 0 then
          (Inr False,
           \<lparr>world = w2,
            trace = trace s @ [Connect None, CallContract (balanceOf_call CRM_TOKEN_ADDRESS a),
                     Alert ''Beta testing is allowed only for users who hold the CRM token.'']\<rparr>)
        else
          (Inr True,
           \<lparr>world = w2, trace = trace s @ [Connect None, CallContract (balanceOf_call CRM_TOKEN_ADDRESS a)]\<rparr>))"
proof (intro impI, elim conjE)
  assume h: "REACT_APP_IS_DEV env \<noteq> Some ''true''"
    "connect env None (world s) = (Inr (Connection (Some wallet)), w1)"
    "account wallet = Some acct"
    "callContract acct (balanceOf_call CRM_TOKEN_ADDRESS a) w1 = (Inr response, w2)"
    "BigInt (index0 response) = Inr b" and b: "0 \<le> b"
  from b have "(0 < b) = (b \<noteq> 0)" by auto
  then show "checkForCRMToken env a s =
       (if b = 0 then
          (Inr False,
           \<lparr>world = w2,
            trace = trace s @ [Connect None, CallContract (balanceOf_call CRM_TOKEN_ADDRESS a),
                     Alert ''Beta testing is allowed only for users who hold the CRM token.'']\<rparr>)
        else
          (Inr True,
           \<lparr>world = w2, trace = trace s @ [Connect None, CallContract (balanceOf_call CRM_TOKEN_ADDRESS a)]\<rparr>))"
    using checkForCRMToken_resolved[OF h] by simp
qed

text \<open>A wallet that holds no token is refused with the alert; a holder of five passes.\<close>

theorem checkForCRMToken_balance_witness:
  "REACT_APP_IS_DEV (env_with (Some (answering [''0'']))) \<noteq> Some ''true'' \<and>
   connect (env_with (Some (answering [''0'']))) None (world start) =
     (Inr (Connection (Some (answering [''0'']))), ()) \<and>
   BigInt (index0 [''0'']) = Inr 0 \<and>
   checkForCRMToken (env_with (Some (answering [''0'']))) ''0x123'' start =
     (Inr False,
      \<lparr>world = (),
       trace = [Connect None, CallContract (balanceOf_call CRM_TOKEN_ADDRESS ''0x123''),
                Alert ''Beta testing is allowed only for users who hold the CRM token.'']\<rparr>) \<and>
   BigInt (index0 [''5'']) = Inr 5 \<and>
   checkForCRMToken (env_with (Some (answering [''5'']))) ''0x123'' start =
     (Inr True,
      \<lparr>world = (), trace = [Connect None, CallContract (balanceOf_call CRM_TOKEN_ADDRESS ''0x123'')]\<rparr>)"
proof -
  have env: "\<And>r. REACT_APP_IS_DEV (env_with (Some (answering r))) \<noteq> Some ''true''"
    "\<And>r. connect (env_with (Some (answering r))) None (world start) =
       (Inr (Connection (Some (answering r))), ())"
    by (simp_all add: env_with_def example_env_def connect_to_def)
  have acct: "\<And>r. account (answering r) =
      Some (example_account\<lparr>callContract := (\<lambda>rq w. (Inr r, w))\<rparr>)"
    "\<And>r rq. callContract (example_account\<lparr>callContract := (\<lambda>rq w. (Inr r, w))\<rparr>) rq () = (Inr r, ())"
    by (simp_all add: answering_def)
  have b: "BigInt (index0 [''0'']) = Inr 0" "BigInt (index0 [''5'']) = Inr 5"
    using zero_words by (simp_all add: index0_def)
  from checkForCRMToken_balance[of "env_with (Some (answering [''0'']))" start "answering [''0'']" "()"
      "example_account\<lparr>callContract := (\<lambda>rq w. (Inr [''0''], w))\<rparr>" "''0x123''" "[''0'']" "()" 0]
    env acct b(1)
  have r0: "checkForCRMToken (env_with (Some (answering [''0'']))) ''0x123'' start =
     (Inr False,
      \<lparr>world = (),
       trace = trace start @ [Connect None, CallContract (balanceOf_call CRM_TOKEN_ADDRESS ''0x123''),
                Alert ''Beta testing is allowed only for users who hold the CRM token.'']\<rparr>)"
    by simp
  from checkForCRMToken_balance[of "env_with (Some (answering [''5'']))" start "answering [''5'']" "()"
      "example_account\<lparr>callContract := (\<lambda>rq w. (Inr [''5''], w))\<rparr>" "''0x123''" "[''5'']" "()" 5]
    env acct b(2)
  have r5: "checkForCRMToken (env_with (Some (answering [''5'']))) ''0x123'' start =
     (Inr True,
      \<lparr>world = (), trace = trace start @ [Connect None, CallContract (balanceOf_call CRM_TOKEN_ADDRESS ''0x123'')]\<rparr>)"
    by simp
  from env b r0 r5 show ?thesis by (simp add: start_def)
qed

text \<open>
  Claim C9. Only the first element of the response is read as the balance: for every
  response whose first word is zero, \<^verbatim>\<open>checkForCRMToken\<close> returns false and raises the
  alert, whatever the further words are.
\<close>

theorem checkForCRMToken_first_word_only:
  "REACT_APP_IS_DEV env \<noteq> Some ''true'' \<and>
   connect env None (world s) = (Inr (Connection (Some wallet)), w1) \<and>
   account wallet = Some acct \<and>
   callContract acct (balanceOf_call CRM_TOKEN_ADDRESS a) w1 = (Inr (word # others), w2) \<and>
   BigInt (Some word) = Inr 0 \<longrightarrow>
     checkForCRMToken env a s =
       (Inr False,
        \<lparr>world = w2,
         trace = trace s @ [Connect None, CallContract (balanceOf_call CRM_TOKEN_ADDRESS a),
                  Alert ''Beta testing is allowed only for users who hold the CRM token.'']\<rparr>)"
proof (intro impI, elim conjE)
  assume h: "REACT_APP_IS_DEV env \<noteq> Some ''true''"
    "connect env None (world s) = (Inr (Connection (Some wallet)), w1)"
    "account wallet = Some acct"
    "callContract acct (balanceOf_call CRM_TOKEN_ADDRESS a) w1 = (Inr (word # others), w2)"
    and z: "BigInt (Some word) = Inr 0"
  have "BigInt (index0 (word # others)) = Inr 0" using z by (simp add: index0_def)
  from checkForCRMToken_resolved[OF h this]
  show "checkForCRMToken env a s =
       (Inr False,
        \<lparr>world = w2,
         trace = trace s @ [Connect None, CallContract (balanceOf_call CRM_TOKEN_ADDRESS a),
                  Alert ''Beta testing is allowed only for users who hold the CRM token.'']\<rparr>)"
    by simp
qed

text \<open>
  A 256-bit balance with a zero low word and a high word of one (a holder of \<open>2 ^ 128\<close>
  tokens) is refused.
\<close>

theorem checkForCRMToken_first_word_only_witness:
  "REACT_APP_IS_DEV example_env \<noteq> Some ''true'' \<and>
   connect example_env None (world start) = (Inr (Connection (Some example_wallet)), ()) \<and>
   account example_wallet = Some example_account \<and>
   callContract example_account (balanceOf_call CRM_TOKEN_ADDRESS ''0x123'') () = (Inr [''0x0'', ''0x1''], ()) \<and>
   BigInt (Some ''0x0'') = Inr 0 \<and>
   BigInt (Some ''0x1'') = Inr 1 \<and>
   checkForCRMToken example_env ''0x123'' start =
     (Inr False,
      \<lparr>world = (),
       trace = [Connect None, CallContract (balanceOf_call CRM_TOKEN_ADDRESS ''0x123''),
                Alert ''Beta testing is allowed only for users who hold the CRM token.'']\<rparr>)"
proof -
  have h: "REACT_APP_IS_DEV example_env \<noteq> Some ''true'' \<and>
     connect example_env None (world start) = (Inr (Connection (Some example_wallet)), ()) \<and>
     account example_wallet = Some example_account \<and>
     callContract example_account (balanceOf_call CRM_TOKEN_ADDRESS ''0x123'') () = (Inr [''0x0'', ''0x1''], ())"
    by (simp add: example_env_def connect_to_def example_wallet_def example_account_def balanceOf_call_def
        CRM_TOKEN_ADDRESS_def)
  have w: "BigInt (Some ''0x0'') = Inr 0" "BigInt (Some ''0x1'') = Inr 1"
    by (simp_all add: eval_simps)
  from checkForCRMToken_first_word_only[of example_env start example_wallet "()" example_account
      "''0x123''" "''0x0''" "[''0x1'']" "()"] h w(1)
  have "checkForCRMToken example_env ''0x123'' start =
     (Inr False,
      \<lparr>world = (),
       trace = trace start @ [Connect None, CallContract (balanceOf_call CRM_TOKEN_ADDRESS ''0x123''),
                Alert ''Beta testing is allowed only for users who hold the CRM token.'']\<rparr>)"
    by simp
  with h w show ?thesis by (simp add: start_def)
qed

subsection \<open>Connecting\<close>

text \<open>
  Claim C5, as amended. For every connector result with a wallet whose \<^verbatim>\<open>enable()\<close>
  succeeds, \<^verbatim>\<open>connectWallet\<close> returns \<^verbatim>\<open>wallet.selectedAddress\<close> when it is truthy; otherwise,
  for a wallet that has an account object, it returns \<^verbatim>\<open>wallet.account.address\<close> when
  that is truthy and fails with the error \<^verbatim>\<open>No wallet address found\<close> when it is absent
  or empty.
\<close>

theorem connectWallet_address:
  "connect env (Some \<lparr>include' = [''argentX'', ''braavos''], modalMode = ''alwaysAsk'', modalTheme = ''light''\<rparr>)
       (world s) = (Inr (Connection (Some wallet)), w1) \<and>
   enable wallet w1 = (Inr b, w2) \<longrightarrow>
     (\<forall>sel. selectedAddress wallet = Some sel \<and> sel \<noteq> [] \<longrightarrow> fst (connectWallet env s) = Inr sel) \<and>
     (\<not> truthy (selectedAddress wallet) \<longrightarrow>
        (\<forall>acct. account wallet = Some acct \<longrightarrow>
           (\<forall>ad. address acct = Some ad \<and> ad \<noteq> [] \<longrightarrow> fst (connectWallet env s) = Inr ad) \<and>
           (\<not> truthy (address acct) \<longrightarrow>
              fst (connectWallet env s) = Inl (Error ''No wallet address found''))))"
  by (auto simp: connectWallet_def connectWallet_try_def call_env_def emit_def truthy_def Let_def
      split: option.splits prod.splits sum.splits)

text \<open>
  A wallet with a selected address, a wallet with an account address only, and a wallet
  whose account has no address.
\<close>

theorem connectWallet_address_witness:
  "connect (env_with (Some selected_wallet))
       (Some \<lparr>include' = [''argentX'', ''braavos''], modalMode = ''alwaysAsk'', modalTheme = ''light''\<rparr>)
       (world start) = (Inr (Connection (Some selected_wallet)), ()) \<and>
   enable selected_wallet () = (Inr True, ()) \<and>
   selectedAddress selected_wallet = Some ''0xabc'' \<and>
   fst (connectWallet (env_with (Some selected_wallet)) start) = Inr ''0xabc'' \<and>
   \<not> truthy (selectedAddress example_wallet) \<and>
   account example_wallet = Some example_account \<and>
   address example_account = Some ''0x123'' \<and>
   fst (connectWallet (env_with (Some example_wallet)) start) = Inr ''0x123'' \<and>
   \<not> truthy (selectedAddress addressless_wallet) \<and>
   account addressless_wallet = Some (example_account\<lparr>address := None\<rparr>) \<and>
   \<not> truthy (address (example_account\<lparr>address := None\<rparr>)) \<and>
   fst (connectWallet (env_with (Some addressless_wallet)) start) = Inl (Error ''No wallet address found'')"
proof -
  let ?opts = "\<lparr>include' = [''argentX'', ''braavos''], modalMode = ''alwaysAsk'', modalTheme = ''light''\<rparr>"
  have c: "\<And>wallet. connect (env_with (Some wallet)) (Some ?opts) (world start) =
      (Inr (Connection (Some wallet)), ())"
    by (simp add: env_with_def example_env_def connect_to_def)
  have e: "enable selected_wallet () = (Inr True, ())" "enable example_wallet () = (Inr True, ())"
    "enable addressless_wallet () = (Inr True, ())"
    by (simp_all add: selected_wallet_def addressless_wallet_def example_wallet_def)
  have sel: "selectedAddress selected_wallet = Some ''0xabc''" "''0xabc'' \<noteq> []"
    by (simp_all add: selected_wallet_def)
  have ex: "\<not> truthy (selectedAddress example_wallet)" "account example_wallet = Some example_account"
    "address example_account = Some ''0x123''" "''0x123'' \<noteq> []"
    by (simp_all add: example_wallet_def example_account_def truthy_def)
  have none: "\<not> truthy (selectedAddress addressless_wallet)"
    "account addressless_wallet = Some (example_account\<lparr>address := None\<rparr>)"
    "\<not> truthy (address (example_account\<lparr>address := None\<rparr>))"
    by (simp_all add: addressless_wallet_def example_wallet_def truthy_def)
  from connectWallet_address[of "env_with (Some selected_wallet)" start selected_wallet "()" True "()"]
    c e(1) sel
  have r1: "fst (connectWallet (env_with (Some selected_wallet)) start) = Inr ''0xabc''" by blast
  from connectWallet_address[of "env_with (Some example_wallet)" start example_wallet "()" True "()"]
    c e(2) ex
  have r2: "fst (connectWallet (env_with (Some example_wallet)) start) = Inr ''0x123''" by blast
  from connectWallet_address[of "env_with (Some addressless_wallet)" start addressless_wallet "()" True "()"]
    c e(3) none
  have r3: "fst (connectWallet (env_with (Some addressless_wallet)) start) =
      Inl (Error ''No wallet address found'')" by blast
  from c[of selected_wallet] e(1) sel(1) r1 ex(1-3) r2 none r3 show ?thesis by simp
qed

text \<open>
  Claim C5 as stated fails for a wallet with no account object: with no selected address
  the fallback reads \<^verbatim>\<open>address\<close> of \<^verbatim>\<open>undefined\<close>, and the call rejects with that
  TypeError, not with \<^verbatim>\<open>No wallet address found\<close>.
\<close>

theorem connectWallet_no_account_counterexample:
  "connect (env_with (Some accountless_wallet))
       (Some \<lparr>include' = [''argentX'', ''braavos''], modalMode = ''alwaysAsk'', modalTheme = ''light''\<rparr>)
       (world start) = (Inr (Connection (Some accountless_wallet)), ()) \<and>
   enable accountless_wallet () = (Inr True, ()) \<and>
   selectedAddress accountless_wallet = None \<and>
   account accountless_wallet = None \<and>
   connectWallet (env_with (Some accountless_wallet)) start =
     (Inl TypeError,
      \<lparr>world = (),
       trace = [ConsoleLog [LogStr ''Attempting to connect to wallet...''],
                Connect (Some \<lparr>include' = [''argentX'', ''braavos''], modalMode = ''alwaysAsk'',
                               modalTheme = ''light''\<rparr>),
                Enable,
                ConsoleError [LogStr ''Error connecting wallet:'', LogMsg TypeError]]\<rparr>) \<and>
   fst (connectWallet (env_with (Some accountless_wallet)) start) \<noteq> Inl (Error ''No wallet address found'')"
  by (simp add: connectWallet_def connectWallet_try_def call_env_def emit_def truthy_def
      env_with_def example_env_def connect_to_def accountless_wallet_def example_wallet_def start_def)

subsection \<open>Balances for the page\<close>

text \<open>
  Claim C8. \<^verbatim>\<open>getBalances\<close> is a no-op when \<^verbatim>\<open>walletId\<close> is falsy: the state and the trace
  are unchanged, so the callback is not invoked and nothing is fetched. For every
  \<^verbatim>\<open>walletId\<close> the call returns normally, and an error raised by the fetch, the mapping
  or the callback is logged and not thrown again.
\<close>

theorem getBalances_never_rejects:
  "(\<not> truthy walletId \<longrightarrow> getBalances env walletId setBalances s = (Inr (), s)) \<and>
   fst (getBalances env walletId setBalances s) = Inr () \<and>
   (\<forall>wid error s1.
       walletId = Some wid \<and> wid \<noteq> [] \<and> getBalances_try env wid setBalances s = (Inl error, s1) \<longrightarrow>
       getBalances env walletId setBalances s =
         (Inr (), emit (ConsoleError [LogStr ''Error fetching user balances:'', LogErr error]) s1))"
  by (auto simp: getBalances_def truthy_def split: option.splits prod.splits sum.splits)

text \<open>
  No wallet id, the empty wallet id, and a fetch that fails because the connector has no
  wallet.
\<close>

theorem getBalances_never_rejects_witness:
  "\<not> truthy None \<and>
   getBalances example_env None throwing_callback start = (Inr (), start) \<and>
   \<not> truthy (Some '''') \<and>
   getBalances example_env (Some '''') throwing_callback start = (Inr (), start) \<and>
   getBalances_try (env_with None) ''0x123'' throwing_callback start =
     (Inl (Error ''Wallet not connected''),
      \<lparr>world = (),
       trace = [Connect None,
                ConsoleError [LogStr ''Error fetching token balances:'',
                              LogErr (Error ''Wallet not connected'')]]\<rparr>) \<and>
   getBalances (env_with None) (Some ''0x123'') throwing_callback start =
     (Inr (),
      \<lparr>world = (),
       trace = [Connect None,
                ConsoleError [LogStr ''Error fetching token balances:'',
                              LogErr (Error ''Wallet not connected'')],
                ConsoleError [LogStr ''Error fetching user balances:'',
                              LogErr (Error ''Wallet not connected'')]]\<rparr>)"
proof -
  have falsy: "\<not> truthy None" "\<not> truthy (Some '''')" by (simp_all add: truthy_def)
  have failing: "getBalances_try (env_with None) ''0x123'' throwing_callback start =
     (Inl (Error ''Wallet not connected''),
      \<lparr>world = (),
       trace = [Connect None,
                ConsoleError [LogStr ''Error fetching token balances:'',
                              LogErr (Error ''Wallet not connected'')]]\<rparr>)"
    by (simp add: getBalances_try_def getTokenBalances_def getTokenBalances_try_def call_env_def emit_def
        env_with_def example_env_def connect_to_def start_def)
  from getBalances_never_rejects[of None example_env throwing_callback start] falsy
  have a: "getBalances example_env None throwing_callback start = (Inr (), start)" by blast
  from getBalances_never_rejects[of "Some ''''" example_env throwing_callback start] falsy
  have b: "getBalances example_env (Some '''') throwing_callback start = (Inr (), start)" by blast
  from getBalances_never_rejects[of "Some ''0x123''" "env_with None" throwing_callback start] failing
  have "getBalances (env_with None) (Some ''0x123'') throwing_callback start =
     (Inr (), emit (ConsoleError [LogStr ''Error fetching user balances:'',
                                  LogErr (Error ''Wallet not connected'')])
        \<lparr>world = (),
         trace = [Connect None,
                  ConsoleError [LogStr ''Error fetching token balances:'',
                                LogErr (Error ''Wallet not connected'')]]\<rparr>)"
    by simp
  then show ?thesis using falsy failing a b by (simp add: emit_def)
qed

lemma getTokenBalance_trace:
  "\<exists>new. trace (snd (getTokenBalance env wallet a t s)) = trace s @ new \<and>
         filter is_SetBalances new = []"
  by (auto simp: getTokenBalance_def getTokenBalance_try_def call_env_def emit_def Let_def
      is_SetBalances_def split: option.splits prod.splits sum.splits)

lemma getTokenBalances_trace:
  assumes "getTokenBalances env a s = (r, s')"
  shows "\<exists>new. trace s' = trace s @ new \<and> filter is_SetBalances new = []"
proof (cases "\<exists>wallet w1. connect env None (world s) = (Inr (Connection (Some wallet)), w1)")
  case False
  then show ?thesis using assms
    by (auto simp: getTokenBalances_def getTokenBalances_try_def call_env_def emit_def
        is_SetBalances_def split: prod.splits sum.splits connection.splits option.splits)
next
  case True
  then obtain wallet w1 where c: "connect env None (world s) = (Inr (Connection (Some wallet)), w1)"
    by blast
  define s1 where "s1 = \<lparr>world = w1, trace = trace s @ [Connect None]\<rparr>"
  obtain eth s2 where e: "getTokenBalance env wallet a (ETH_ADDRESS env) s1 = (eth, s2)" by force
  obtain usdc s3 where u: "getTokenBalance env wallet a (USDC_ADDRESS env) s2 = (usdc, s3)" by force
  obtain strk s4 where k: "getTokenBalance env wallet a (STRK_ADDRESS env) s3 = (strk, s4)" by force
  have "s' = s4"
    using assms c e u k by (simp add: getTokenBalances_def getTokenBalances_try_def call_env_def s1_def)
  moreover obtain n2 where "trace s2 = trace s1 @ n2" "filter is_SetBalances n2 = []"
    using getTokenBalance_trace[of env wallet a "ETH_ADDRESS env" s1] e by auto
  moreover obtain n3 where "trace s3 = trace s2 @ n3" "filter is_SetBalances n3 = []"
    using getTokenBalance_trace[of env wallet a "USDC_ADDRESS env" s2] u by auto
  moreover obtain n4 where "trace s4 = trace s3 @ n4" "filter is_SetBalances n4 = []"
    using getTokenBalance_trace[of env wallet a "STRK_ADDRESS env" s3] k by auto
  ultimately have "trace s' = trace s @ (Connect None # n2 @ n3 @ n4) \<and>
      filter is_SetBalances (Connect None # n2 @ n3 @ n4) = []"
    by (simp add: s1_def is_SetBalances_def)
  then show ?thesis by blast
qed

lemma getTokenBalances_keys:
  assumes "getTokenBalances env a s = (Inr m, s')"
  shows "\<exists>e u k. m = [''ETH'' \<mapsto> e, ''USDC'' \<mapsto> u, ''STRK'' \<mapsto> k]"
  using assms
  by (auto simp: getTokenBalances_def getTokenBalances_try_def
      split: prod.splits sum.splits connection.splits option.splits)

text \<open>
  Claim C10. Every successful result of \<^verbatim>\<open>getTokenBalances\<close> defines exactly the keys
  ETH, USDC and STRK. Whenever \<^verbatim>\<open>getBalances\<close> invokes its callback, it passes the three
  entries ETH, USDC, STRK in this order, each with its icon, its title and the balance
  string of that key, so the default \<^verbatim>\<open>'0.00'\<close> is not used; and the callback is invoked
  at most once per call.
\<close>

theorem getBalances_three_entries:
  "(\<forall>m s1. getTokenBalances env a s = (Inr m, s1) \<longrightarrow> dom m = {''ETH'', ''USDC'', ''STRK''}) \<and>
   (\<forall>r s'. getBalances env walletId setBalances s = (r, s') \<longrightarrow>
      (\<exists>new. trace s' = trace s @ new \<and> length (filter is_SetBalances new) \<le> 1 \<and>
         (\<forall>bs. SetBalances bs \<in> set new \<longrightarrow>
            (\<exists>wid m s1 e u k.
                walletId = Some wid \<and> getTokenBalances env wid s = (Inr m, s1) \<and>
                m ''ETH'' = Some e \<and> m ''USDC'' = Some u \<and> m ''STRK'' = Some k \<and>
                bs = [\<lparr>icon = ETH, title = ''ETH'', balance = e\<rparr>,
                      \<lparr>icon = USDC, title = ''USDC'', balance = u\<rparr>,
                      \<lparr>icon = STRK, title = ''STRK'', balance = k\<rparr>]))))"
proof (intro conjI allI impI)
  fix m s1
  assume "getTokenBalances env a s = (Inr m, s1)"
  from getTokenBalances_keys[OF this] show "dom m = {''ETH'', ''USDC'', ''STRK''}"
    by (auto simp: dom_def split: if_splits)
next
  fix r s'
  assume g: "getBalances env walletId setBalances s = (r, s')"
  let ?goal = "\<exists>new. trace s' = trace s @ new \<and> length (filter is_SetBalances new) \<le> 1 \<and>
         (\<forall>bs. SetBalances bs \<in> set new \<longrightarrow>
            (\<exists>wid m s1 e u k.
                walletId = Some wid \<and> getTokenBalances env wid s = (Inr m, s1) \<and>
                m ''ETH'' = Some e \<and> m ''USDC'' = Some u \<and> m ''STRK'' = Some k \<and>
                bs = [\<lparr>icon = ETH, title = ''ETH'', balance = e\<rparr>,
                      \<lparr>icon = USDC, title = ''USDC'', balance = u\<rparr>,
                      \<lparr>icon = STRK, title = ''STRK'', balance = k\<rparr>]))"
  show ?goal
  proof (cases "truthy walletId")
    case False
    then have "s' = s" using g by (auto simp: getBalances_def truthy_def split: option.splits)
    then have "trace s' = trace s @ [] \<and> length (filter is_SetBalances []) \<le> 1 \<and>
        (\<forall>bs. SetBalances bs \<notin> set [])" by simp
    then show ?thesis by (intro exI[of _ "[]"]) simp
  next
    case True
    then obtain wid where wid: "walletId = Some wid" "wid \<noteq> []"
      by (auto simp: truthy_def split: option.splits)
    obtain tb s1 where tb: "getTokenBalances env wid s = (tb, s1)" by force
    from getTokenBalances_trace[OF tb] obtain n1 where
      n1: "trace s1 = trace s @ n1" "filter is_SetBalances n1 = []" by blast
    have n1': "\<And>bs. SetBalances bs \<notin> set n1"
    proof
      fix bs assume "SetBalances bs \<in> set n1"
      then have "SetBalances bs \<in> set (filter is_SetBalances n1)" by (simp add: is_SetBalances_def)
      then show False using n1(2) by simp
    qed
    show ?thesis
    proof (cases tb)
      case (Inl err)
      then have "trace s' = trace s @ (n1 @ [ConsoleError [LogStr ''Error fetching user balances:'', LogErr err]])"
        using g wid tb n1 by (auto simp: getBalances_def getBalances_try_def emit_def)
      moreover have "length (filter is_SetBalances (n1 @ [ConsoleError [LogStr ''Error fetching user balances:'', LogErr err]])) \<le> 1"
        using n1(2) by (simp add: is_SetBalances_def)
      moreover have "\<forall>bs. SetBalances bs \<notin> set (n1 @ [ConsoleError [LogStr ''Error fetching user balances:'', LogErr err]])"
        using n1' by simp
      ultimately show ?thesis by blast
    next
      case (Inr m)
      from getTokenBalances_keys[OF tb[unfolded Inr]] obtain e u k where
        m: "m = [''ETH'' \<mapsto> e, ''USDC'' \<mapsto> u, ''STRK'' \<mapsto> k]" by blast
      define bs0 where "bs0 = [\<lparr>icon = ETH, title = ''ETH'', balance = e\<rparr>,
                      \<lparr>icon = USDC, title = ''USDC'', balance = u\<rparr>,
                      \<lparr>icon = STRK, title = ''STRK'', balance = k\<rparr>]"
      have bal: "balance_or_default m ''ETH'' = e" "balance_or_default m ''USDC'' = u"
        "balance_or_default m ''STRK'' = k" by (simp_all add: m balance_or_default_def)
      have mv: "m ''ETH'' = Some e" "m ''USDC'' = Some u" "m ''STRK'' = Some k" by (simp_all add: m)
      obtain cr w2 where cb: "setBalances bs0 (world s1) = (cr, w2)" by force
      have "\<exists>tail. trace s' = trace s @ (n1 @ SetBalances bs0 # tail) \<and>
               filter is_SetBalances tail = [] \<and> (\<forall>bs. SetBalances bs \<notin> set tail)"
        using g wid tb Inr n1 cb bal
        by (cases cr)
           (auto simp: getBalances_def getBalances_try_def emit_def call_env_def Let_def bs0_def
              is_SetBalances_def)
      then obtain tail where t: "trace s' = trace s @ (n1 @ SetBalances bs0 # tail)"
        "filter is_SetBalances tail = []" "\<forall>bs. SetBalances bs \<notin> set tail" by blast
      have "length (filter is_SetBalances (n1 @ SetBalances bs0 # tail)) \<le> 1"
        using n1(2) t(2) by (simp add: is_SetBalances_def)
      moreover have "\<forall>bs. SetBalances bs \<in> set (n1 @ SetBalances bs0 # tail) \<longrightarrow> bs = bs0"
        using n1' t(3) by auto
      ultimately show ?thesis
        using t(1) wid tb Inr mv unfolding bs0_def by blast
    qed
  qed
qed

text \<open>The example wallet: the callback receives \<^verbatim>\<open>1.0000\<close>, \<^verbatim>\<open>0\<close> and \<^verbatim>\<open>3.0000\<close>, once.\<close>

theorem getBalances_three_entries_witness:
  "getTokenBalances example_env ''0x123'' start =
     (Inr [''ETH'' \<mapsto> ''1.0000'', ''USDC'' \<mapsto> ''0'', ''STRK'' \<mapsto> ''3.0000''],
      snd (getTokenBalances example_env ''0x123'' start)) \<and>
   dom [''ETH'' \<mapsto> ''1.0000'', ''USDC'' \<mapsto> ''0'', ''STRK'' \<mapsto> ''3.0000''] = {''ETH'', ''USDC'', ''STRK''} \<and>
   fst (getBalances example_env (Some ''0x123'') accepting_callback start) = Inr () \<and>
   trace (snd (getBalances example_env (Some ''0x123'') accepting_callback start)) =
     trace (snd (getTokenBalances example_env ''0x123'' start)) @
     [SetBalances [\<lparr>icon = ETH, title = ''ETH'', balance = ''1.0000''\<rparr>,
                   \<lparr>icon = USDC, title = ''USDC'', balance = ''0''\<rparr>,
                   \<lparr>icon = STRK, title = ''STRK'', balance = ''3.0000''\<rparr>]] \<and>
   length (filter is_SetBalances
     (trace (snd (getBalances example_env (Some ''0x123'') accepting_callback start)))) \<le> 1"
proof -
  let ?m = "[''ETH'' \<mapsto> ''1.0000'', ''USDC'' \<mapsto> ''0'', ''STRK'' \<mapsto> ''3.0000'']"
  let ?bs = "[\<lparr>icon = ETH, title = ''ETH'', balance = ''1.0000''\<rparr>,
              \<lparr>icon = USDC, title = ''USDC'', balance = ''0''\<rparr>,
              \<lparr>icon = STRK, title = ''STRK'', balance = ''3.0000''\<rparr>]"
  let ?run = "getBalances example_env (Some ''0x123'') accepting_callback start"
  have tb: "getTokenBalances example_env ''0x123'' start =
     (Inr ?m, snd (getTokenBalances example_env ''0x123'' start))"
    by (simp add: example_balances)
  have run: "fst ?run = Inr ()"
    "trace (snd ?run) = trace (snd (getTokenBalances example_env ''0x123'' start)) @ [SetBalances ?bs]"
    by (simp_all add: getBalances_def getBalances_try_def example_balances call_env_def
        accepting_callback_def balance_or_default_def)
  note t = getBalances_three_entries[of example_env "''0x123''" start "Some ''0x123''" accepting_callback]
  from t tb have d: "dom ?m = {''ETH'', ''USDC'', ''STRK''}" by blast
  have pair: "?run = (fst ?run, snd ?run)" by simp
  from t pair obtain new where new: "trace (snd ?run) = trace start @ new"
    "length (filter is_SetBalances new) \<le> 1" by blast
  then have "length (filter is_SetBalances (trace (snd ?run))) \<le> 1" by (simp add: start_def)
  with tb d run show ?thesis by simp
qed

section \<open>The contract deployment service\<close>

text \<open>
  Claim C6. For every wallet id, when the connector reports a disconnected session,
  \<^verbatim>\<open>deployContract\<close> rejects with the error whose message is exactly
  \<^verbatim>\<open>Wallet not connected\<close>, and the only effect up to that point is the call of the
  connector: \<^verbatim>\<open>account.deployContract\<close> is never invoked.
\<close>

theorem deployContract_not_connected:
  "connect' env (world s) = (Inr starknet, w1) \<and> \<not> isConnected starknet \<longrightarrow>
     deployContract env walletId s =
       (Inl (Error ''Wallet not connected''), \<lparr>world = w1, trace = trace s @ [Connect']\<rparr>)"
  by (simp add: deployContract_def call_env_def)

text \<open>A disconnected session: the connector resolves with \<^verbatim>\<open>isConnected: false\<close>.\<close>

theorem deployContract_not_connected_witness:
  "connect' disconnected_backend (world cstart) = (Inr \<lparr>isConnected = False, account' = None\<rparr>, ()) \<and>
   \<not> isConnected \<lparr>isConnected = False, account' = (None :: (unit, string) deployer option)\<rparr> \<and>
   deployContract disconnected_backend ''0x123'' cstart =
     (Inl (Error ''Wallet not connected''), \<lparr>world = (), trace = [Connect']\<rparr>)"
proof -
  have h: "connect' disconnected_backend (world cstart) = (Inr \<lparr>isConnected = False, account' = None\<rparr>, ()) \<and>
     \<not> isConnected \<lparr>isConnected = False, account' = (None :: (unit, string) deployer option)\<rparr>"
    by (simp add: disconnected_backend_def cstart_def)
  from deployContract_not_connected[of disconnected_backend cstart
      "\<lparr>isConnected = False, account' = None\<rparr>" "()" "''0x123''"] h
  show ?thesis by (simp add: cstart_def)
qed

text \<open>
  Claim C1. For every wallet id, if \<^verbatim>\<open>GET /api/check-user\<close> reports
  \<^verbatim>\<open>is_contract_deployed: true\<close>, then \<^verbatim>\<open>checkAndDeployContract\<close> returns and its only effect is
  that request: no call of the connector, no deployment, no \<^verbatim>\<open>POST\<close>. Conversely, a run
  that calls the connector is a run in which the backend reported the contract as not
  deployed.
\<close>

theorem checkAndDeployContract_already_deployed:
  "(axios_get env (''/api/check-user?wallet_id='' @ walletId) (world s) = (Inr response, w1) \<and>
    is_contract_deployed response \<longrightarrow>
      checkAndDeployContract env walletId s =
        (Inr (), \<lparr>world = w1, trace = trace s @ [HttpGet (''/api/check-user?wallet_id='' @ walletId)]\<rparr>)) \<and>
   (\<forall>r s'. checkAndDeployContract env walletId s = (r, s') \<and> Connect' \<in> set (trace s') \<and>
        Connect' \<notin> set (trace s) \<longrightarrow>
      (\<exists>response w1. axios_get env (''/api/check-user?wallet_id='' @ walletId) (world s) = (Inr response, w1) \<and>
          \<not> is_contract_deployed response))"
  by (auto simp: checkAndDeployContract_def checkAndDeployContract_try_def call_env_def emit_def Let_def
      split: prod.splits sum.splits if_splits)

lemma fresh_backend_run:
  "checkAndDeployContract fresh_backend ''0x123'' cstart =
     (Inr (),
      \<lparr>world = (),
       trace = [HttpGet ''/api/check-user?wallet_id=0x123'', Connect', DeployContract ''mockContractData'',
                WaitForTransaction ''0xabc'',
                HttpPost ''/api/update-user-contract'' \<lparr>wallet_id = ''0x123'', contract_address' = ''0xdef''\<rparr>]\<rparr>)"
  by (simp add: checkAndDeployContract_def checkAndDeployContract_try_def deployContract_def call_env_def
      fresh_backend_def deploying_account_def cstart_def)

text \<open>
  The backend that knows the contract is answered without the connector; the run against
  the fresh backend reaches the connector, and that backend reported no contract.
\<close>

theorem checkAndDeployContract_already_deployed_witness:
  "axios_get deployed_backend (''/api/check-user?wallet_id='' @ ''0x123'') (world cstart) =
     (Inr \<lparr>is_contract_deployed = True\<rparr>, ()) \<and>
   is_contract_deployed \<lparr>is_contract_deployed = True\<rparr> \<and>
   checkAndDeployContract deployed_backend ''0x123'' cstart =
     (Inr (), \<lparr>world = (), trace = [HttpGet ''/api/check-user?wallet_id=0x123'']\<rparr>) \<and>
   Connect' \<in> set (trace (snd (checkAndDeployContract fresh_backend ''0x123'' cstart))) \<and>
   Connect' \<notin> set (trace cstart) \<and>
   axios_get fresh_backend (''/api/check-user?wallet_id='' @ ''0x123'') (world cstart) =
     (Inr \<lparr>is_contract_deployed = False\<rparr>, ()) \<and>
   \<not> is_contract_deployed \<lparr>is_contract_deployed = False\<rparr>"
proof -
  have h: "axios_get deployed_backend (''/api/check-user?wallet_id='' @ ''0x123'') (world cstart) =
       (Inr \<lparr>is_contract_deployed = True\<rparr>, ()) \<and>
     is_contract_deployed \<lparr>is_contract_deployed = True\<rparr>"
    by (simp add: deployed_backend_def)
  have skip: "checkAndDeployContract deployed_backend ''0x123'' cstart =
     (Inr (), \<lparr>world = (), trace = [HttpGet ''/api/check-user?wallet_id=0x123'']\<rparr>)"
    using checkAndDeployContract_already_deployed[of deployed_backend "''0x123''" cstart
        "\<lparr>is_contract_deployed = True\<rparr>" "()"] h
    by (simp add: cstart_def)
  have t1: "Connect' \<in> set (trace (snd (checkAndDeployContract fresh_backend ''0x123'' cstart)))"
    by (simp add: fresh_backend_run)
  have t2: "Connect' \<notin> set (trace cstart)"
    by (simp add: cstart_def)
  note touched = conjI[OF t1 t2]
  have run: "checkAndDeployContract fresh_backend ''0x123'' cstart =
     (fst (checkAndDeployContract fresh_backend ''0x123'' cstart),
      snd (checkAndDeployContract fresh_backend ''0x123'' cstart))" by simp
  from checkAndDeployContract_already_deployed[of fresh_backend "''0x123''" cstart
      "\<lparr>is_contract_deployed = False\<rparr>" "()"]
  have "\<forall>r s'. checkAndDeployContract fresh_backend ''0x123'' cstart = (r, s') \<and>
        Connect' \<in> set (trace s') \<and> Connect' \<notin> set (trace cstart) \<longrightarrow>
      (\<exists>response w1. axios_get fresh_backend (''/api/check-user?wallet_id='' @ ''0x123'') (world cstart) =
          (Inr response, w1) \<and> \<not> is_contract_deployed response)"
    by blast
  with run t1 t2
  have "\<exists>response w1. axios_get fresh_backend (''/api/check-user?wallet_id='' @ ''0x123'') (world cstart) =
       (Inr response, w1) \<and> \<not> is_contract_deployed response"
    by blast
  then have "axios_get fresh_backend (''/api/check-user?wallet_id='' @ ''0x123'') (world cstart) =
     (Inr \<lparr>is_contract_deployed = False\<rparr>, ()) \<and> \<not> is_contract_deployed \<lparr>is_contract_deployed = False\<rparr>"
    by (simp add: fresh_backend_def)
  with h skip touched show ?thesis by simp
qed

text \<open>
  Claim C7. For every wallet id, when the backend reports \<^verbatim>\<open>is_contract_deployed: false\<close>
  and the deployment succeeds with \<^verbatim>\<open>{transaction_hash: h, contract_address: a}\<close>,
  \<^verbatim>\<open>checkAndDeployContract\<close> waits for transaction \<open>h\<close> and then issues
  \<^verbatim>\<open>POST /api/update-user-contract\<close> with the body \<^verbatim>\<open>{wallet_id: walletId, contract_address: a}\<close>,
  in this order and exactly once; whether the call then resolves or rejects is the outcome
  of that request.
\<close>

theorem checkAndDeployContract_reports_address:
  "axios_get env (''/api/check-user?wallet_id='' @ walletId) (world s) = (Inr response, w1) \<and>
   \<not> is_contract_deployed response \<and>
   connect' env w1 = (Inr starknet, w2) \<and> isConnected starknet \<and> account' starknet = Some acct \<and>
   account_deployContract acct (getDeployContractData env walletId) w2 =
     (Inr \<lparr>transaction_hash = h, contract_address = a\<rparr>, w3) \<and>
   account_waitForTransaction acct h w3 = (Inr u, w4) \<and>
   axios_post env ''/api/update-user-contract'' \<lparr>wallet_id = walletId, contract_address' = a\<rparr> w4 = (posted, w5) \<longrightarrow>
     checkAndDeployContract env walletId s =
       (case posted of Inl error \<Rightarrow> Inl error | Inr _ \<Rightarrow> Inr (),
        \<lparr>world = w5,
         trace = trace s @
           [HttpGet (''/api/check-user?wallet_id='' @ walletId),
            Connect',
            DeployContract (getDeployContractData env walletId),
            WaitForTransaction h,
            HttpPost ''/api/update-user-contract'' \<lparr>wallet_id = walletId, contract_address' = a\<rparr>] @
           (case posted of
              Inl error \<Rightarrow> [ConsoleError' [LogStr ''Error checking contract status:'', LogErr error]]
            | Inr _ \<Rightarrow> [])\<rparr>)"
  by (auto simp: checkAndDeployContract_def checkAndDeployContract_try_def deployContract_def
      call_env_def emit_def Let_def split: sum.splits)

text \<open>The scenario of the test suite: transaction \<^verbatim>\<open>0xabc\<close>, contract \<^verbatim>\<open>0xdef\<close>.\<close>

theorem checkAndDeployContract_reports_address_witness:
  "axios_get fresh_backend (''/api/check-user?wallet_id='' @ ''0x123'') (world cstart) =
     (Inr \<lparr>is_contract_deployed = False\<rparr>, ()) \<and>
   \<not> is_contract_deployed \<lparr>is_contract_deployed = False\<rparr> \<and>
   connect' fresh_backend () = (Inr \<lparr>isConnected = True, account' = Some deploying_account\<rparr>, ()) \<and>
   account_deployContract deploying_account (getDeployContractData fresh_backend ''0x123'') () =
     (Inr \<lparr>transaction_hash = ''0xabc'', contract_address = ''0xdef''\<rparr>, ()) \<and>
   account_waitForTransaction deploying_account ''0xabc'' () = (Inr (), ()) \<and>
   axios_post fresh_backend ''/api/update-user-contract''
     \<lparr>wallet_id = ''0x123'', contract_address' = ''0xdef''\<rparr> () = (Inr (), ()) \<and>
   checkAndDeployContract fresh_backend ''0x123'' cstart =
     (Inr (),
      \<lparr>world = (),
       trace = [HttpGet ''/api/check-user?wallet_id=0x123'', Connect', DeployContract ''mockContractData'',
                WaitForTransaction ''0xabc'',
                HttpPost ''/api/update-user-contract'' \<lparr>wallet_id = ''0x123'', contract_address' = ''0xdef''\<rparr>]\<rparr>)"
proof -
  have h: "axios_get fresh_backend (''/api/check-user?wallet_id='' @ ''0x123'') (world cstart) =
       (Inr \<lparr>is_contract_deployed = False\<rparr>, ()) \<and>
     \<not> is_contract_deployed \<lparr>is_contract_deployed = False\<rparr> \<and>
     connect' fresh_backend () = (Inr \<lparr>isConnected = True, account' = Some deploying_account\<rparr>, ()) \<and>
     isConnected \<lparr>isConnected = True, account' = Some deploying_account\<rparr> \<and>
     account' \<lparr>isConnected = True, account' = Some deploying_account\<rparr> = Some deploying_account \<and>
     account_deployContract deploying_account (getDeployContractData fresh_backend ''0x123'') () =
       (Inr \<lparr>transaction_hash = ''0xabc'', contract_address = ''0xdef''\<rparr>, ()) \<and>
     account_waitForTransaction deploying_account ''0xabc'' () = (Inr (), ()) \<and>
     axios_post fresh_backend ''/api/update-user-contract''
       \<lparr>wallet_id = ''0x123'', contract_address' = ''0xdef''\<rparr> () = (Inr (), ())"
    by (simp add: fresh_backend_def deploying_account_def)
  from checkAndDeployContract_reports_address[of fresh_backend "''0x123''" cstart
      "\<lparr>is_contract_deployed = False\<rparr>" "()" "\<lparr>isConnected = True, account' = Some deploying_account\<rparr>"
      "()" deploying_account "''0xabc''" "''0xdef''" "()" "()" "()" "Inr ()" "()"] h
  show ?thesis by (simp add: cstart_def fresh_backend_def)
qed

section \<open>The scenarios of the test suites\<close>

text \<open>
  The model run on the inputs of \<^verbatim>\<open>wallet.test.js\<close> and of the contract test suite gives
  the results these suites expect; the last run of the wallet service is against a wallet
  whose answers depend on its state.
\<close>

lemma funded_reads:
  "readableBalance example_env ''0xUSDC'' [''2000000''] = Inr ''2.0000''"
  by (simp add: readableBalance_def tokenDecimals_def example_env_def eval_simps)

lemma counting_reads:
  "readableBalance counting_env ''0xUSDC'' [''2000000''] = Inr ''2.0000''"
  by (simp add: readableBalance_def tokenDecimals_def counting_env_def eval_simps)

lemma scenario_fetch_all_balances:
  "fst (getTokenBalances (env_with (Some funded_wallet)) ''0x123'' start) =
     Inr [''ETH'' \<mapsto> ''1.0000'', ''USDC'' \<mapsto> ''2.0000'', ''STRK'' \<mapsto> ''3.0000'']"
proof -
  have e: "ETH_ADDRESS (env_with (Some funded_wallet)) = ''0xETH''"
    "USDC_ADDRESS (env_with (Some funded_wallet)) = ''0xUSDC''"
    "STRK_ADDRESS (env_with (Some funded_wallet)) = ''0xSTRK''"
    "connect (env_with (Some funded_wallet)) None () = (Inr (Connection (Some funded_wallet)), ())"
    by (simp_all add: env_with_def example_env_def connect_to_def)
  have d: "\<And>t. tokenDecimals (env_with (Some funded_wallet)) t = tokenDecimals example_env t"
    by (simp add: tokenDecimals_def env_with_def)
  have r: "\<And>t rs. readableBalance (env_with (Some funded_wallet)) t rs = readableBalance example_env t rs"
    by (simp only: readableBalance_def d)
  have a: "account funded_wallet = Some (example_account\<lparr>callContract := (\<lambda>rq w.
       (if contractAddress rq = ''0xETH'' then Inr [''1000000000000000000'']
        else if contractAddress rq = ''0xUSDC'' then Inr [''2000000'']
        else Inr [''3000000000000000000''], w))\<rparr>)"
    by (simp add: funded_wallet_def)
  show ?thesis
    by (simp add: getTokenBalances_def getTokenBalances_try_def getTokenBalance_def
        getTokenBalance_try_def call_env_def emit_def e r a
        balanceOf_call_def example_reads funded_reads start_def)
qed

lemma scenario_stateful_wallet:
  "getTokenBalances counting_env ''0x123'' \<lparr>world = 0, trace = []\<rparr> =
     (Inr [''ETH'' \<mapsto> ''0'', ''USDC'' \<mapsto> ''2.0000'', ''STRK'' \<mapsto> ''0''],
      \<lparr>world = 4,
       trace = [Connect None,
                CallContract (balanceOf_call ''0xETH'' ''0x123''),
                ConsoleError [LogStr ''Error fetching balance for token 0xETH:'', LogErr (Error ''busy'')],
                CallContract (balanceOf_call ''0xUSDC'' ''0x123''),
                ConsoleLog [LogStr ''Balance for token 0xUSDC:'', LogStr ''2.0000''],
                CallContract (balanceOf_call ''0xSTRK'' ''0x123''),
                ConsoleError [LogStr ''Error fetching balance for token 0xSTRK:'', LogErr (Error ''busy'')]]\<rparr>)"
proof -
  have e: "ETH_ADDRESS counting_env = ''0xETH''" "USDC_ADDRESS counting_env = ''0xUSDC''"
    "STRK_ADDRESS counting_env = ''0xSTRK''"
    "\<And>w. connect counting_env None w = (Inr (Connection (Some counting_wallet)), Suc w)"
    by (simp_all add: counting_env_def)
  have a: "account counting_wallet = Some \<lparr>address = Some ''0x123'',
      callContract = (\<lambda>rq w. (if even w then Inr [''2000000''] else Inl (Error ''busy''), Suc w))\<rparr>"
    by (simp add: counting_wallet_def)
  show ?thesis
    by (simp add: getTokenBalances_def getTokenBalances_try_def getTokenBalance_def
        getTokenBalance_try_def call_env_def emit_def e a
        balanceOf_call_def counting_reads)
qed

lemma scenario_development_mode:
  "checkForCRMToken (example_env\<lparr>REACT_APP_IS_DEV := Some ''true''\<rparr>) ''0x123'' start =
     (Inr True, \<lparr>world = (), trace = [ConsoleLog [LogStr ''Development mode: Skipping CRM token check.'']]\<rparr>)"
  by (simp add: checkForCRMToken_def emit_def start_def)

lemma scenario_no_wallet:
  "fst (checkForCRMToken (env_with None) ''0x123'' start) = Inl (Error ''Wallet not connected'')"
  "fst (connectWallet (env_with None) start) = Inl (Error ''Failed to connect to wallet'')"
  "fst (getTokenBalances (env_with None) ''0x123'' start) = Inl (Error ''Wallet not connected'')"
  by (simp_all add: checkForCRMToken_def checkForCRMToken_try_def connectWallet_def connectWallet_try_def
      getTokenBalances_def getTokenBalances_try_def call_env_def emit_def env_with_def example_env_def
      connect_to_def start_def)

lemma scenario_enable_rejects:
  "fst (connectWallet (env_with (Some (selected_wallet\<lparr>enable := (\<lambda>w. (Inl (Error ''Connection failed''), w))\<rparr>)))
         start) = Inl (Error ''Connection failed'')"
  by (simp add: connectWallet_def connectWallet_try_def call_env_def emit_def env_with_def example_env_def
      connect_to_def start_def)

lemma scenario_contract_call_fails:
  "fst (checkForCRMToken
         (env_with (Some (example_wallet\<lparr>account := Some (example_account\<lparr>callContract :=
             (\<lambda>rq w. (Inl (Error ''Contract call failed''), w))\<rparr>)\<rparr>)))
         ''0x123'' start) = Inl (Error ''Contract call failed'')"
  by (simp add: checkForCRMToken_def checkForCRMToken_try_def call_env_def emit_def env_with_def
      example_env_def connect_to_def example_wallet_def start_def)

lemma scenario_deploy:
  "deployContract fresh_backend ''0x123'' cstart =
     (Inr \<lparr>transactionHash = ''0xabc'', contractAddress' = ''0xdef''\<rparr>,
      \<lparr>world = (), trace = [Connect', DeployContract ''mockContractData'', WaitForTransaction ''0xabc'']\<rparr>)"
  by (simp add: deployContract_def call_env_def fresh_backend_def deploying_account_def cstart_def)

lemma scenario_backend_errors:
  "checkAndDeployContract (fresh_backend\<lparr>axios_get := (\<lambda>url w. (Inl (Error ''Backend error''), w))\<rparr>)
       ''0x123'' cstart =
     (Inl (Error ''Backend error''),
      \<lparr>world = (),
       trace = [HttpGet ''/api/check-user?wallet_id=0x123'',
                ConsoleError' [LogStr ''Error checking contract status:'', LogErr (Error ''Backend error'')]]\<rparr>)"
  "fst (checkAndDeployContract (fresh_backend\<lparr>axios_post := (\<lambda>url body w. (Inl (Error ''Update failed''), w))\<rparr>)
       ''0x123'' cstart) = Inl (Error ''Update failed'')"
  by (simp_all add: checkAndDeployContract_def checkAndDeployContract_try_def deployContract_def
      call_env_def emit_def fresh_backend_def deploying_account_def cstart_def)

end
